theory Spec2Isabelle
  imports Main "HOL-Library.Word"
begin

section \<open>Python strings\<close>

text \<open>
  Text is a \<^typ>\<open>string\<close>, a list of 8-bit characters: the UTF-8 bytes of the Python
  \<open>str\<close>. The white space of \<open>str.isspace\<close>, which \<open>str.strip()\<close> removes, is: the ASCII
  characters TAB, LF, VT, FF, CR, \<open>0x1C\<close> to \<open>0x1F\<close> and the space (one byte each);
  \<open>U+0085\<close> and \<open>U+00A0\<close> (two bytes); \<open>U+1680\<close>, \<open>U+2000\<close> to \<open>U+200A\<close>, \<open>U+2028\<close>,
  \<open>U+2029\<close>, \<open>U+202F\<close>, \<open>U+205F\<close> and \<open>U+3000\<close> (three bytes).
\<close>

definition py_isspace :: "char \<Rightarrow> bool" where
  "py_isspace c = (let n = (of_char c :: nat) in (9 \<le> n \<and> n \<le> 13) \<or> (28 \<le> n \<and> n \<le> 32))"

definition py_isspace2 :: "char \<Rightarrow> char \<Rightarrow> bool" where
  "py_isspace2 a b = (a = CHR 0xC2 \<and> (b = CHR 0x85 \<or> b = CHR 0xA0))"

definition py_isspace3 :: "char \<Rightarrow> char \<Rightarrow> char \<Rightarrow> bool" where
  "py_isspace3 a b c =
     (let n = (of_char c :: nat)
      in (a = CHR 0xE1 \<and> b = CHR 0x9A \<and> c = CHR 0x80) \<or>
         (a = CHR 0xE2 \<and> b = CHR 0x80 \<and>
            ((128 \<le> n \<and> n \<le> 138) \<or> n = 168 \<or> n = 169 \<or> n = 175)) \<or>
         (a = CHR 0xE2 \<and> b = CHR 0x81 \<and> c = CHR 0x9F) \<or>
         (a = CHR 0xE3 \<and> b = CHR 0x80 \<and> c = CHR 0x80))"

text \<open>\<open>s.lstrip()\<close>: the white-space characters at the start of the text are dropped.\<close>

fun lstrip :: "string \<Rightarrow> string" where
  "lstrip (a # b # c # rest) =
     (if py_isspace a then lstrip (b # c # rest)
      else if py_isspace2 a b then lstrip (c # rest)
      else if py_isspace3 a b c then lstrip rest
      else a # b # c # rest)"
| "lstrip [a, b] =
     (if py_isspace a then lstrip [b] else if py_isspace2 a b then [] else [a, b])"
| "lstrip [a] = (if py_isspace a then [] else [a])"
| "lstrip [] = []"

text \<open>
  The same from the end, on the reversed text: \<open>a\<close> is the last byte, \<open>b\<close> the one
  before it, \<open>c\<close> the one before that.
\<close>

fun rstrip_rev :: "string \<Rightarrow> string" where
  "rstrip_rev (a # b # c # rest) =
     (if py_isspace a then rstrip_rev (b # c # rest)
      else if py_isspace2 b a then rstrip_rev (c # rest)
      else if py_isspace3 c b a then rstrip_rev rest
      else a # b # c # rest)"
| "rstrip_rev [a, b] =
     (if py_isspace a then rstrip_rev [b] else if py_isspace2 b a then [] else [a, b])"
| "rstrip_rev [a] = (if py_isspace a then [] else [a])"
| "rstrip_rev [] = []"

definition strip :: "string \<Rightarrow> string" where
  "strip s = rev (rstrip_rev (rev (lstrip s)))"

section \<open>The document tree of BeautifulSoup\<close>

text \<open>
  \<open>BeautifulSoup(html_content, 'html.parser')\<close> turns the page into a tree of tags and
  text nodes, and the extraction only queries that tree. A tag carries its name, the list of its classes (the multi-valued \<open>class\<close> attribute,
  already split at white space, as the library keeps it) and its other attributes.
  Comments and the text of \<open>script\<close> and \<open>style\<close> elements, which \<open>get_text\<close> leaves out,
  are not nodes of the model.
\<close>

datatype node =
  Tag (tag_name: string) (tag_classes: "string list") (tag_attrs: "(string \<times> string) list")
      (tag_contents: "node list")
| NavigableString string

text \<open>\<open>tag.descendants\<close>: every node below the tag, in document order.\<close>

fun descendants :: "node \<Rightarrow> node list" where
  "descendants (Tag n cls ats cs) = concat (map (\<lambda>c. c # descendants c) cs)"
| "descendants (NavigableString s) = []"

text \<open>\<open>tag.get(key)\<close>: the attribute, or \<open>None\<close>.\<close>

fun tag_get :: "node \<Rightarrow> string \<Rightarrow> string option" where
  "tag_get (Tag n cls ats cs) k = map_of ats k"
| "tag_get (NavigableString s) k = None"

text \<open>
  The test of \<open>find_all(name, class_=c)\<close>: a tag of that name one of whose classes is
  \<open>c\<close> (the class names searched for here hold no white space, so the library's second
  test, against the whole attribute, adds nothing).
\<close>

fun has_class :: "string \<Rightarrow> string \<Rightarrow> node \<Rightarrow> bool" where
  "has_class nm c (Tag n cls ats cs) = (n = nm \<and> c \<in> set cls)"
| "has_class nm c (NavigableString s) = False"

fun has_id :: "string \<Rightarrow> string \<Rightarrow> node \<Rightarrow> bool" where
  "has_id nm i (Tag n cls ats cs) = (n = nm \<and> map_of ats ''id'' = Some i)"
| "has_id nm i (NavigableString s) = False"

definition find_all :: "node \<Rightarrow> (node \<Rightarrow> bool) \<Rightarrow> node list" where
  "find_all root p = filter p (descendants root)"

text \<open>\<open>find\<close> is the first result of \<open>find_all\<close>, or \<open>None\<close>.\<close>

definition find_first :: "node \<Rightarrow> (node \<Rightarrow> bool) \<Rightarrow> node option" where
  "find_first root p = (case find_all root p of [] \<Rightarrow> None | t # _ \<Rightarrow> Some t)"

text \<open>
  \<open>tag.get_text(strip=True)\<close>: the text nodes below the tag, each stripped, the empty
  ones dropped, joined with the empty separator.
\<close>

fun node_string :: "node \<Rightarrow> string list" where
  "node_string (NavigableString s) = [s]"
| "node_string (Tag n cls ats cs) = []"

definition get_text :: "node \<Rightarrow> string" where
  "get_text t = concat (filter (\<lambda>s. s \<noteq> []) (map strip (concat (map node_string (descendants t)))))"

section \<open>The statistics record\<close>

text \<open>
  The dictionaries of \<open>utils.py\<close>. A key that the code may leave out is an optional
  field: \<open>None\<close> is the missing key, and reading it with \<open>d['key']\<close> raises \<open>KeyError\<close>.
\<close>

record stat_item =
  item_title :: string
  item_value :: string

record stat_block =
  title :: "string option"
  main_value :: "string option"
  items :: "stat_item list"

record player_stats =
  avatar_url :: "string option"
  flag_url :: "string option"
  level_url :: "string option"
  name :: "string option"
  elo :: "string option"
  view1_stats :: "stat_block list option"
  view2_stats :: "stat_block list option"

definition empty_stats :: player_stats where
  "empty_stats = \<lparr>avatar_url = None, flag_url = None, level_url = None, name = None,
     elo = None, view1_stats = None, view2_stats = None\<rparr>"

section \<open>Extraction from the tree (utils.py, parse\_view\_stats\_div and parse\_faceitanalyser)\<close>

text \<open>
  The body of the loop of \<open>parse_view_stats_div\<close>: the dictionary \<open>block_data\<close> of one
  block. \<open>title\<close> and \<open>main_value\<close> are set only when their span is found; the items are
  the \<open>zip\<close> of the item-title spans and the item-value spans.
\<close>

definition parse_block :: "node \<Rightarrow> stat_block" where
  "parse_block block =
     (let title_span = find_first block (has_class ''span'' ''stats_totals_block_title_text'');
          main_value_span = find_first block (has_class ''span'' ''stats_totals_block_main_value_span'');
          item_titles = find_all block (has_class ''span'' ''stats_totals_block_item_title'');
          item_spans = find_all block (has_class ''span'' ''stats_totals_block_item_value'')
      in \<lparr>title = map_option get_text title_span,
          main_value = map_option get_text main_value_span,
          items = map (\<lambda>(title_span, value_span).
                         \<lparr>item_title = get_text title_span, item_value = get_text value_span\<rparr>)
                      (zip item_titles item_spans)\<rparr>)"

definition parse_view_stats_div :: "node \<Rightarrow> stat_block list" where
  "parse_view_stats_div d =
     map parse_block (find_all d (has_class ''div'' ''stats_totals_block_wrapper''))"

text \<open>A truthy \<open>tag.get('src')\<close>: the attribute is there and is not the empty string.\<close>

definition truthy_src :: "node \<Rightarrow> string option" where
  "truthy_src t = (case tag_get t ''src'' of None \<Rightarrow> None
                   | Some s \<Rightarrow> if s = [] then None else Some s)"

definition base_origin :: string where
  "base_origin = ''https://faceitanalyser.com/''"

text \<open>The loop over \<open>enumerate(level_images[:2])\<close>.\<close>

fun level_loop :: "player_stats \<Rightarrow> (nat \<times> node) list \<Rightarrow> player_stats" where
  "level_loop data [] = data"
| "level_loop data ((i, level_img) # rest) =
     level_loop
       (case truthy_src level_img of
          None \<Rightarrow> data
        | Some image_url \<Rightarrow>
            if i = 0 then data\<lparr>flag_url := Some (base_origin @ image_url)\<rparr>
            else data\<lparr>level_url := Some (base_origin @ image_url)\<rparr>)
       rest"

text \<open>
  Lines 310 to 343 of \<open>parse_faceitanalyser\<close>: what it does with the soup, once that is
  built. The two loops over a literal pair (the span classes, whose key is
  \<open>class_.split('_')[2]\<close>, that is \<open>name\<close> and \<open>elo\<close>, and the container ids) are written
  out. These lines have no \<open>raise\<close>; they return the dictionary or \<open>None\<close>. The whole
  function, with the call of the parser before them, follows the exceptions and the
  surroundings below.
\<close>

definition parse_soup :: "node \<Rightarrow> player_stats option" where
  "parse_soup soup =
     (let data = empty_stats;
          data = (case find_first soup (has_class ''img'' ''stats_profile_avatar'') of
                    None \<Rightarrow> data
                  | Some avatar_img \<Rightarrow>
                      (case truthy_src avatar_img of
                         None \<Rightarrow> data
                       | Some src \<Rightarrow> data\<lparr>avatar_url := Some src\<rparr>));
          level_images = find_all soup (has_class ''img'' ''stats_profile_level_image'');
          data = level_loop data (enumerate 0 (take 2 level_images))
      in case find_first soup (has_class ''span'' ''stats_profile_name_span'') of
           None \<Rightarrow> None
         | Some name_span \<Rightarrow>
        (let data = data\<lparr>name := Some (get_text name_span)\<rparr>
         in case find_first soup (has_class ''span'' ''stats_profile_elo_span'') of
              None \<Rightarrow> None
            | Some elo_span \<Rightarrow>
           (let data = data\<lparr>elo := Some (get_text elo_span)\<rparr>
            in case find_first soup (has_id ''div'' ''view1_stats'') of
                 None \<Rightarrow> None
               | Some div1 \<Rightarrow>
              (let data = data\<lparr>view1_stats := Some (parse_view_stats_div div1)\<rparr>
               in case find_first soup (has_id ''div'' ''view2_stats'') of
                    None \<Rightarrow> None
                  | Some div2 \<Rightarrow>
                      Some (data\<lparr>view2_stats := Some (parse_view_stats_div div2)\<rparr>)))))"

section \<open>Exceptions\<close>

text \<open>
  The exceptions that the code can raise. \<open>ParserRejectedMarkup\<close> is what BeautifulSoup
  makes of an \<open>AssertionError\<close> of \<open>html.parser\<close>. \<open>CardError e\<close> is the
  \<open>Exception(f"... {e}")\<close> that \<open>generate_player_card\<close> raises in place of \<open>e\<close>.
\<close>

datatype exn =
  KeyError string
| ValueError
| TypeError
| OSError
| RequestException
| ImageLoadError
| SqliteError
| ParserRejectedMarkup
| CardError exn

section \<open>Python's float(str)\<close>

text \<open>
  A binary64 value: \<open>Finite m e\<close> is \<open>m * 2 ^ e\<close>; the sign of a zero is not kept, no
  comparison reads it.
\<close>

datatype pyfloat = Finite int int | Infinite bool | NaN

definition is_digit :: "char \<Rightarrow> bool" where
  "is_digit c = (let n = (of_char c :: nat) in 48 \<le> n \<and> n \<le> 57)"

definition digit_val :: "char \<Rightarrow> int" where
  "digit_val c = int (of_char c) - 48"

definition digits_val :: "string \<Rightarrow> int" where
  "digits_val ds = foldl (\<lambda>a c. 10 * a + digit_val c) 0 ds"

definition lower_char :: "char \<Rightarrow> char" where
  "lower_char c = (let n = (of_char c :: nat) in if 65 \<le> n \<and> n \<le> 90 then char_of (n + 32) else c)"

definition lower :: "string \<Rightarrow> string" where
  "lower s = map lower_char s"

text \<open>
  An underscore may stand only between two digits; \<open>prev\<close> is the character before
  (\<open>NUL\<close> at the start). The result is the text without its underscores.
\<close>

fun strip_underscores :: "char \<Rightarrow> string \<Rightarrow> string option" where
  "strip_underscores prev [] = (if prev = CHR ''_'' then None else Some [])"
| "strip_underscores prev (c # cs) =
     (if c = CHR ''_'' then (if is_digit prev then strip_underscores c cs else None)
      else if prev = CHR ''_'' \<and> \<not> is_digit c then None
      else map_option ((#) c) (strip_underscores c cs))"

definition split_sign :: "string \<Rightarrow> bool \<times> string" where
  "split_sign s = (case s of [] \<Rightarrow> (False, [])
     | c # r \<Rightarrow> if c = CHR ''-'' then (True, r) else if c = CHR ''+'' then (False, r) else (False, s))"

text \<open>The exponent part: nothing, or \<open>e\<close> or \<open>E\<close>, a sign if any, and at least one digit.\<close>

definition parse_exponent :: "string \<Rightarrow> int option" where
  "parse_exponent s = (case s of [] \<Rightarrow> Some 0
     | c # r \<Rightarrow>
         if c = CHR ''e'' \<or> c = CHR ''E'' then
           (case split_sign r of (neg, ds) \<Rightarrow>
              if ds \<noteq> [] \<and> list_all is_digit ds
              then Some (if neg then - digits_val ds else digits_val ds) else None)
         else None)"

function bit_length :: "int \<Rightarrow> nat" where
  "bit_length n = (if n \<le> 0 then 0 else Suc (bit_length (n div 2)))"
  by auto
termination
  by (relation "measure nat") auto

declare bit_length.simps [simp del]

text \<open>\<open>ilog2_frac a b\<close> is the \<open>e\<close> with \<open>2 ^ e \<le> a / b < 2 ^ (e + 1)\<close>, for positive \<open>a\<close>, \<open>b\<close>.\<close>

definition ilog2_frac :: "int \<Rightarrow> int \<Rightarrow> int" where
  "ilog2_frac a b =
     (let t = int (bit_length a) - int (bit_length b)
      in if (0 \<le> t \<and> b * 2 ^ nat t \<le> a) \<or> (t < 0 \<and> b \<le> a * 2 ^ nat (- t)) then t else t - 1)"

text \<open>\<open>num / den\<close> rounded to the nearest integer, a tie to the even one.\<close>

definition round_half_even :: "int \<Rightarrow> int \<Rightarrow> int" where
  "round_half_even num den =
     (let q = num div den; r = num mod den
      in if 2 * r < den then q
         else if den < 2 * r then q + 1
         else if even q then q else q + 1)"

text \<open>
  The decimal \<open>d * 10 ^ k\<close> (\<open>d \<ge> 0\<close>), correctly rounded to binary64: 53 significant bits,
  the least quantum \<open>2 ^ - 1074\<close>, infinity from \<open>2 ^ 1024\<close> on.
\<close>

definition round_double :: "bool \<Rightarrow> int \<Rightarrow> int \<Rightarrow> pyfloat" where
  "round_double neg d k =
     (let a = (if 0 \<le> k then d * 10 ^ nat k else d);
          b = (if 0 \<le> k then 1 else 10 ^ nat (- k))
      in if a = 0 then Finite 0 0
         else
           (let e = max (ilog2_frac a b) (- 1022);
                q = e - 52;
                n = (if q \<le> 0 then round_half_even (a * 2 ^ nat (- q)) b
                     else round_half_even a (b * 2 ^ nat q))
            in if 1023 < e \<or> (e = 1023 \<and> 2 ^ 53 \<le> n) then Infinite neg
               else Finite (if neg then - n else n) q))"

text \<open>
  The white space that \<open>float\<close> skips around an ASCII string is C's: TAB, LF, VT, FF, CR
  and the space.
\<close>

definition float_isspace :: "char \<Rightarrow> bool" where
  "float_isspace c = (let n = (of_char c :: nat) in (9 \<le> n \<and> n \<le> 13) \<or> n = 32)"

definition float_strip :: "string \<Rightarrow> string" where
  "float_strip s = rev (dropWhile float_isspace (rev (dropWhile float_isspace s)))"

text \<open>
  \<open>float(s)\<close> for a string: \<open>None\<close> is the \<open>ValueError\<close>. The grammar is the one of the
  language reference (white space around, a sign, \<open>inf\<close>, \<open>infinity\<close> or \<open>nan\<close> in any
  case, or digits with an optional point and exponent), over ASCII digits.
\<close>

definition py_float :: "string \<Rightarrow> pyfloat option" where
  "py_float s =
     (case strip_underscores (CHR 0x00) s of
        None \<Rightarrow> None
      | Some t \<Rightarrow>
          (case split_sign (float_strip t) of (neg, r) \<Rightarrow>
             if lower r = ''inf'' \<or> lower r = ''infinity'' then Some (Infinite neg)
             else if lower r = ''nan'' then Some NaN
             else
               (let ip = takeWhile is_digit r;
                    r1 = dropWhile is_digit r;
                    fp = (case r1 of [] \<Rightarrow> []
                          | c # t \<Rightarrow> if c = CHR ''.'' then takeWhile is_digit t else []);
                    r2 = (case r1 of [] \<Rightarrow> []
                          | c # t \<Rightarrow> if c = CHR ''.'' then dropWhile is_digit t else r1)
                in if ip = [] \<and> fp = [] then None
                   else (case parse_exponent r2 of
                           None \<Rightarrow> None
                         | Some ex \<Rightarrow>
                             Some (round_double neg (digits_val (ip @ fp)) (ex - int (length fp)))))))"

text \<open>\<open>f < c\<close> for a float \<open>f\<close> and an integer literal \<open>c\<close>; a comparison with NaN is false.\<close>

fun float_lt :: "pyfloat \<Rightarrow> int \<Rightarrow> bool" where
  "float_lt (Finite m e) c = (if 0 \<le> e then m * 2 ^ nat e < c else m < c * 2 ^ nat (- e))"
| "float_lt (Infinite neg) c = neg"
| "float_lt NaN c = False"

section \<open>Rendering (utils.py)\<close>

type_synonym rgb = "nat \<times> nat \<times> nat"
type_synonym rgba = "nat \<times> nat \<times> nat \<times> nat"

datatype font = Font string nat

text \<open>
  An image to paste: \<open>NewRGBA size color\<close> is \<open>Image.new('RGBA', size, color)\<close>; the
  other two are what \<open>load_image_safe\<close> makes of the bytes of a response, at the size
  asked for, and \<open>CircleMasked\<close> is the avatar after \<open>putalpha\<close> with the ellipse mask.
\<close>

datatype picture =
  NewRGBA "nat \<times> nat" rgba
| SvgImage string "nat \<times> nat"
| RasterImage string "nat \<times> nat"
| CircleMasked picture

text \<open>
  What has been drawn on the card, in order. \<open>DrawText xy text fill font anchor\<close> is
  \<open>draw.text\<close>, \<open>Paste im xy\<close> is \<open>image.paste(im, xy, im)\<close>.
\<close>

datatype draw_op =
  Rectangle "int list" rgb rgb nat
| DrawText "int \<times> int" string rgb font "string option"
| Line "int list" rgb nat
| Paste picture "int \<times> int"

record canvas =
  canvas_size :: "nat \<times> nat"
  canvas_color :: rgb
  canvas_ops :: "draw_op list"

record response =
  status_code :: nat
  content_type :: "string option"
  content :: string
  response_text :: string

datatype http_outcome = ConnectionFailure | Timeout | Response response

datatype sql_op = Connect | Cursor | Select | Fetchone | Write | Commit

text \<open>
  What the code does not decide. \<open>http_get n url\<close> is the outcome of a GET of \<open>url\<close>
  made as the request number \<open>n\<close> of the process. \<open>html_tree markup\<close> is what the parser
  of BeautifulSoup makes of a markup: the tree, or the exception with which it rejects
  the markup. \<open>sql_fails n op\<close> says that \<open>op\<close> raises
  \<open>sqlite3.Error\<close> on the connection number \<open>n\<close>, \<open>current_timestamp n\<close> is SQLite's
  \<open>CURRENT_TIMESTAMP\<close> there. \<open>svg_converts\<close> and \<open>image_opens\<close> say which bytes cairosvg
  and PIL accept, \<open>font_files\<close> which font files exist, \<open>text_width\<close> is the width of the
  box of \<open>draw.textbbox\<close>.
\<close>

record env =
  http_get :: "nat \<Rightarrow> string \<Rightarrow> http_outcome"
  html_tree :: "string \<Rightarrow> exn + node"
  sql_fails :: "nat \<Rightarrow> sql_op \<Rightarrow> bool"
  current_timestamp :: "nat \<Rightarrow> nat"
  svg_converts :: "string \<Rightarrow> bool"
  image_opens :: "string \<Rightarrow> bool"
  font_files :: "string list"
  text_width :: "font \<Rightarrow> string \<Rightarrow> int"

type_synonym telegram_id = "64 word"

record user_row =
  row_telegram_id :: telegram_id
  row_faceit_nickname :: string
  row_registered_at :: nat

record reg_entry =
  waiting_for_login :: bool

text \<open>The texts of the module \<open>constants\<close>, by name.\<close>

datatype bot_text =
  WELCOME_TEXT | HELP_TEXT | REGISTRATION_MSG | NICKNAME_NOT_FOUND | REGISTRATION_OK
| NOT_REGISTERED | STAT_MSG

datatype reply =
  SendMessage bot_text
| SendPhoto canvas bot_text "string option"

text \<open>
  The state that the bot changes: the URLs requested so far, the number of calls of
  \<open>sqlite3.connect\<close> and of connections now open, the committed rows of the table
  \<open>users\<close>, the dictionary \<open>user_registration_data\<close>, and what was sent to which chat.
\<close>

record world =
  requests :: "string list"
  connects :: nat
  open_conns :: nat
  users :: "user_row list"
  user_registration_data :: "telegram_id \<rightharpoonup> reg_entry"
  outbox :: "(int \<times> reply) list"

text \<open>\<open>d[k]\<close> for a key that may be missing.\<close>

definition subscript :: "string \<Rightarrow> 'a option \<Rightarrow> exn + 'a" where
  "subscript k v = (case v of None \<Rightarrow> Inl (KeyError k) | Some x \<Rightarrow> Inr x)"

text \<open>\<open>sub in s\<close> and \<open>s.endswith(suf)\<close>.\<close>

fun contains :: "string \<Rightarrow> string \<Rightarrow> bool" where
  "contains sub [] = (sub = [])"
| "contains sub (c # cs) = (take (length sub) (c # cs) = sub \<or> contains sub cs)"

definition endswith :: "string \<Rightarrow> string \<Rightarrow> bool" where
  "endswith s suf = (length suf \<le> length s \<and> drop (length s - length suf) s = suf)"

text \<open>
  \<open>requests.get\<close> raises a \<open>RequestException\<close> when the connection fails or times out;
  \<open>raise_for_status\<close> raises one (an \<open>HTTPError\<close>) for a status from 400 to 599.
\<close>

definition requests_get :: "env \<Rightarrow> world \<Rightarrow> string \<Rightarrow> (exn + response) \<times> world" where
  "requests_get ev w url =
     ((case http_get ev (length (requests w)) url of
         Response r \<Rightarrow> Inr r
       | ConnectionFailure \<Rightarrow> Inl RequestException
       | Timeout \<Rightarrow> Inl RequestException),
      w\<lparr>requests := requests w @ [url]\<rparr>)"

definition raise_for_status :: "response \<Rightarrow> exn + unit" where
  "raise_for_status r =
     (if 400 \<le> status_code r \<and> status_code r < 600 then Inl RequestException else Inr ())"

text \<open>
  \<open>load_image_safe\<close>: every exception inside is caught and raised again as an
  \<open>ImageLoadError\<close>.
\<close>

definition load_image_safe ::
  "env \<Rightarrow> world \<Rightarrow> string \<Rightarrow> nat \<times> nat \<Rightarrow> (exn + picture) \<times> world" where
  "load_image_safe ev w url default_size =
     (case requests_get ev w url of (got, w1) \<Rightarrow>
        ((case got of
            Inl e \<Rightarrow> Inl ImageLoadError
          | Inr r \<Rightarrow>
              (case raise_for_status r of
                 Inl e \<Rightarrow> Inl ImageLoadError
               | Inr u \<Rightarrow>
                   (let ctype = lower (case content_type r of None \<Rightarrow> [] | Some c \<Rightarrow> c)
                    in if contains ''svg'' ctype \<or> endswith url ''.svg'' then
                         (if svg_converts ev (content r)
                          then Inr (SvgImage (content r) default_size)
                          else Inl ImageLoadError)
                       else
                         (if image_opens ev (content r)
                          then Inr (RasterImage (content r) default_size)
                          else Inl ImageLoadError)))),
         w1))"

definition create_placeholder :: "nat \<times> nat \<Rightarrow> rgba \<Rightarrow> picture" where
  "create_placeholder sz color = NewRGBA sz color"

subsection \<open>draw\_stat\_table\<close>

definition warning_tint :: rgb where
  "warning_tint = (230, 118, 118)"

definition positive_tint :: rgb where
  "positive_tint = (214, 243, 148)"

text \<open>\<open>float(stat_data['main_value']) < c\<close>.\<close>

definition main_value_below :: "stat_block \<Rightarrow> int \<Rightarrow> exn + bool" where
  "main_value_below stat_data c =
     (case subscript ''main_value'' (main_value stat_data) of
        Inl e \<Rightarrow> Inl e
      | Inr mv \<Rightarrow> (case py_float mv of None \<Rightarrow> Inl ValueError | Some f \<Rightarrow> Inr (float_lt f c)))"

text \<open>
  Lines 107 to 120: the colour of the main value. \<open>a and b\<close> evaluates \<open>b\<close> only when
  \<open>a\<close> is true.
\<close>

definition fill_color :: "stat_block \<Rightarrow> exn + rgb" where
  "fill_color stat_data =
     (case subscript ''title'' (title stat_data) of
        Inl e \<Rightarrow> Inl e
      | Inr t \<Rightarrow>
          (case (if t \<in> set [''Avg. KDR'', ''FA Rating''] then main_value_below stat_data 1
                 else Inr False) of
             Inl e \<Rightarrow> Inl e
           | Inr is_low_kdr_or_rating \<Rightarrow>
               (case (if t = ''Winrate'' then main_value_below stat_data 50 else Inr False) of
                  Inl e \<Rightarrow> Inl e
                | Inr is_low_winrate \<Rightarrow>
                    Inr (if is_low_kdr_or_rating \<or> is_low_winrate then warning_tint
                         else positive_tint))))"

text \<open>The loop over \<open>enumerate(stat_data['items'])\<close>: two texts for each item.\<close>

fun draw_items :: "int \<Rightarrow> int \<Rightarrow> int \<Rightarrow> font \<Rightarrow> (nat \<times> stat_item) list \<Rightarrow> draw_op list" where
  "draw_items x y table_width stat_value_font [] = []"
| "draw_items x y table_width stat_value_font ((i, item) # rest) =
     (let item_y = y + 95 + int i * 25
      in [DrawText (x + 20, item_y) (item_title item) (200, 200, 200) stat_value_font None,
          DrawText (x + table_width - 20, item_y) (item_value item) (255, 255, 255)
            stat_value_font (Some ''ra'')])
     @ draw_items x y table_width stat_value_font rest"

definition draw_stat_table ::
  "env \<Rightarrow> int \<Rightarrow> int \<Rightarrow> stat_block \<Rightarrow> int \<Rightarrow> int \<Rightarrow> font \<Rightarrow> font \<Rightarrow> font \<Rightarrow> exn + draw_op list" where
  "draw_stat_table ev x y stat_data table_width table_height
       title_font stat_title_font stat_value_font =
     (case subscript ''title'' (title stat_data) of
        Inl e \<Rightarrow> Inl e
      | Inr t \<Rightarrow>
     (case fill_color stat_data of
        Inl e \<Rightarrow> Inl e
      | Inr fill \<Rightarrow>
     (case subscript ''main_value'' (main_value stat_data) of
        Inl e \<Rightarrow> Inl e
      | Inr mv \<Rightarrow>
          Inr ([Rectangle [x, y, x + table_width, y + table_height] (45, 45, 45) (80, 80, 80) 2,
                DrawText (x + (table_width - text_width ev title_font t) div 2, y + 15) t
                  (255, 255, 255) title_font None,
                DrawText (x + (table_width - text_width ev stat_title_font mv) div 2, y + 50) mv
                  fill stat_title_font None,
                Line [x + 20, y + 85, x + table_width - 20, y + 85] (100, 100, 100) 1]
               @ draw_items x y table_width stat_value_font (enumerate 0 (items stat_data))))))"

subsection \<open>generate\_player\_card\<close>

definition truetype :: "env \<Rightarrow> string \<Rightarrow> nat \<Rightarrow> exn + font" where
  "truetype ev path sz = (if path \<in> set (font_files ev) then Inr (Font path sz) else Inl OSError)"

definition montserrat_medium :: string where
  "montserrat_medium = ''Montserrat-Font/Montserrat-Medium.ttf''"

definition montserrat_bold :: string where
  "montserrat_bold = ''Montserrat-Font/Montserrat-Bold.ttf''"

record fonts =
  name_font :: font
  elo_font :: font
  title_font :: font
  stat_title_font :: font
  stat_value_font :: font
  section_font :: font

definition load_fonts :: "env \<Rightarrow> exn + fonts" where
  "load_fonts ev =
     (case truetype ev montserrat_bold 40 of Inl e \<Rightarrow> Inl e | Inr f1 \<Rightarrow>
     (case truetype ev montserrat_medium 36 of Inl e \<Rightarrow> Inl e | Inr f2 \<Rightarrow>
     (case truetype ev montserrat_bold 28 of Inl e \<Rightarrow> Inl e | Inr f3 \<Rightarrow>
     (case truetype ev montserrat_bold 24 of Inl e \<Rightarrow> Inl e | Inr f4 \<Rightarrow>
     (case truetype ev montserrat_medium 22 of Inl e \<Rightarrow> Inl e | Inr f5 \<Rightarrow>
     (case truetype ev montserrat_bold 32 of Inl e \<Rightarrow> Inl e | Inr f6 \<Rightarrow>
        Inr \<lparr>name_font = f1, elo_font = f2, title_font = f3, stat_title_font = f4,
             stat_value_font = f5, section_font = f6\<rparr>))))))"

text \<open>
  The three blocks \<open>try: ... except ImageLoadError: ...\<close>. The subscript \<open>data['..._url']\<close>
  is inside the \<open>try\<close>; its \<open>KeyError\<close> is not an \<open>ImageLoadError\<close> and leaves the block.
\<close>

definition paste_avatar :: "env \<Rightarrow> world \<Rightarrow> player_stats \<Rightarrow> (exn + draw_op list) \<times> world" where
  "paste_avatar ev w data =
     (case subscript ''avatar_url'' (avatar_url data) of
        Inl e \<Rightarrow> (Inl e, w)
      | Inr url \<Rightarrow>
          (case load_image_safe ev w url (150, 150) of
             (Inr avatar_img, w1) \<Rightarrow> (Inr [Paste (CircleMasked avatar_img) (50, 50)], w1)
           | (Inl e, w1) \<Rightarrow>
               if e = ImageLoadError
               then (Inr [Paste (create_placeholder (150, 150) (100, 100, 100, 255)) (50, 50)], w1)
               else (Inl e, w1)))"

definition paste_flag :: "env \<Rightarrow> world \<Rightarrow> player_stats \<Rightarrow> (exn + draw_op list) \<times> world" where
  "paste_flag ev w data =
     (case subscript ''flag_url'' (flag_url data) of
        Inl e \<Rightarrow> (Inl e, w)
      | Inr url \<Rightarrow>
          (case load_image_safe ev w url (60, 45) of
             (Inr flag_img, w1) \<Rightarrow> (Inr [Paste flag_img (220, 55)], w1)
           | (Inl e, w1) \<Rightarrow>
               if e = ImageLoadError
               then (Inr [Paste (create_placeholder (60, 45) (200, 100, 100, 255)) (220, 55)], w1)
               else (Inl e, w1)))"

definition paste_level :: "env \<Rightarrow> world \<Rightarrow> player_stats \<Rightarrow> (exn + draw_op list) \<times> world" where
  "paste_level ev w data =
     (case subscript ''level_url'' (level_url data) of
        Inl e \<Rightarrow> (Inl e, w)
      | Inr url \<Rightarrow>
          (case load_image_safe ev w url (70, 70) of
             (Inr level_img, w1) \<Rightarrow> (Inr [Paste level_img (220, 110)], w1)
           | (Inl e, w1) \<Rightarrow>
               if e = ImageLoadError
               then (Inr [Paste (create_placeholder (45, 45) (100, 200, 100, 255)) (220, 110)], w1)
               else (Inl e, w1)))"

text \<open>The section titles, as the UTF-8 bytes of the Russian captions of the source.\<close>

definition section1_title :: string where
  "section1_title =
     [CHR 0xD0, CHR 0xA1, CHR 0xD1, CHR 0x82, CHR 0xD0, CHR 0xB0, CHR 0xD1, CHR 0x82,
      CHR 0xD0, CHR 0xB8, CHR 0xD1, CHR 0x81, CHR 0xD1, CHR 0x82, CHR 0xD0, CHR 0xB8,
      CHR 0xD0, CHR 0xBA, CHR 0xD0, CHR 0xB0, CHR 0x20, CHR 0xD0, CHR 0xB7, CHR 0xD0,
      CHR 0xB0, CHR 0x20, CHR 0xD0, CHR 0xB2, CHR 0xD1, CHR 0x81, CHR 0xD1, CHR 0x91,
      CHR 0x20, CHR 0xD0, CHR 0xB2, CHR 0xD1, CHR 0x80, CHR 0xD0, CHR 0xB5, CHR 0xD0,
      CHR 0xBC, CHR 0xD1, CHR 0x8F]"

definition section2_title :: string where
  "section2_title =
     [CHR 0xD0, CHR 0xA1, CHR 0xD1, CHR 0x82, CHR 0xD0, CHR 0xB0, CHR 0xD1, CHR 0x82,
      CHR 0xD0, CHR 0xB8, CHR 0xD1, CHR 0x81, CHR 0xD1, CHR 0x82, CHR 0xD0, CHR 0xB8,
      CHR 0xD0, CHR 0xBA, CHR 0xD0, CHR 0xB0, CHR 0x20, CHR 0xD0, CHR 0xB7, CHR 0xD0,
      CHR 0xB0, CHR 0x20, CHR 0xD0, CHR 0xBF, CHR 0xD0, CHR 0xBE, CHR 0xD1, CHR 0x81,
      CHR 0xD0, CHR 0xBB, CHR 0xD0, CHR 0xB5, CHR 0xD0, CHR 0xB4, CHR 0xD0, CHR 0xBD,
      CHR 0xD0, CHR 0xB8, CHR 0xD0, CHR 0xB5, CHR 0x20, CHR 0x35, CHR 0x30, CHR 0x20,
      CHR 0xD0, CHR 0xBC, CHR 0xD0, CHR 0xB0, CHR 0xD1, CHR 0x82, CHR 0xD1, CHR 0x87,
      CHR 0xD0, CHR 0xB5, CHR 0xD0, CHR 0xB9]"

text \<open>The loop over \<open>enumerate(data['view..._stats'])\<close>; the first error ends it.\<close>

fun draw_tables :: "env \<Rightarrow> int \<Rightarrow> fonts \<Rightarrow> (nat \<times> stat_block) list \<Rightarrow> exn + draw_op list" where
  "draw_tables ev table_start_y fs [] = Inr []"
| "draw_tables ev table_start_y fs ((i, stat_data) # rest) =
     (case draw_stat_table ev (50 + int i * (350 + 30)) table_start_y stat_data 350 180
             (title_font fs) (stat_title_font fs) (stat_value_font fs) of
        Inl e \<Rightarrow> Inl e
      | Inr ops \<Rightarrow>
          (case draw_tables ev table_start_y fs rest of
             Inl e \<Rightarrow> Inl e
           | Inr later \<Rightarrow> Inr (ops @ later)))"

text \<open>The body of the outer \<open>try\<close>: what is drawn on the new image, or the exception.\<close>

definition card_body :: "env \<Rightarrow> world \<Rightarrow> player_stats \<Rightarrow> (exn + draw_op list) \<times> world" where
  "card_body ev w data =
     (case load_fonts ev of Inl e \<Rightarrow> (Inl e, w) | Inr fs \<Rightarrow>
     (case paste_avatar ev w data of (Inl e, w1) \<Rightarrow> (Inl e, w1) | (Inr ops1, w1) \<Rightarrow>
     (case paste_flag ev w1 data of (Inl e, w2) \<Rightarrow> (Inl e, w2) | (Inr ops2, w2) \<Rightarrow>
     (case paste_level ev w2 data of (Inl e, w3) \<Rightarrow> (Inl e, w3) | (Inr ops3, w3) \<Rightarrow>
     (case subscript ''name'' (name data) of Inl e \<Rightarrow> (Inl e, w3) | Inr nm \<Rightarrow>
     (case subscript ''elo'' (elo data) of Inl e \<Rightarrow> (Inl e, w3) | Inr el \<Rightarrow>
     (case subscript ''view1_stats'' (view1_stats data) of Inl e \<Rightarrow> (Inl e, w3) | Inr v1 \<Rightarrow>
     (case draw_tables ev 315 fs (enumerate 0 v1) of Inl e \<Rightarrow> (Inl e, w3) | Inr tables1 \<Rightarrow>
     (case subscript ''view2_stats'' (view2_stats data) of Inl e \<Rightarrow> (Inl e, w3) | Inr v2 \<Rightarrow>
     (case draw_tables ev 590 fs (enumerate 0 v2) of Inl e \<Rightarrow> (Inl e, w3) | Inr tables2 \<Rightarrow>
        (Inr (ops1 @ ops2 @ ops3
              @ [DrawText (295, 55) nm (255, 255, 255) (name_font fs) None,
                 DrawText (295, 120) el (255, 255, 255) (elo_font fs) None,
                 Line [40, 230, 1600 - 40, 230] (100, 100, 100) 1,
                 DrawText (50, 260) section1_title (255, 255, 255) (section_font fs) None]
              @ tables1
              @ [DrawText (50, 535) section2_title (255, 255, 255) (section_font fs) None]
              @ tables2),
         w3)))))))))))"

text \<open>
  \<open>generate_player_card\<close>: the image of 1600 by 820 with what the body drew, or, for an
  exception \<open>e\<close> of the body, the \<open>Exception\<close> made of it.
\<close>

definition generate_player_card :: "env \<Rightarrow> world \<Rightarrow> player_stats \<Rightarrow> (exn + canvas) \<times> world" where
  "generate_player_card ev w data =
     (case card_body ev w data of
        (Inl e, w1) \<Rightarrow> (Inl (CardError e), w1)
      | (Inr ops, w1) \<Rightarrow>
          (Inr \<lparr>canvas_size = (1600, 820), canvas_color = (30, 30, 30), canvas_ops = ops\<rparr>, w1))"

section \<open>Parsing the page (utils.py, parse\_faceitanalyser)\<close>

text \<open>
  One rejection of \<open>html.parser\<close> is written out, as \<open>_markupbase.parse_marked_section\<close>
  of CPython 3.11 has it. A markup that begins with \<open><![\<close> is read as a marked section:
  after these three characters a name is expected, a letter followed by letters, digits,
  \<open>-\<close>, \<open>_\<close> and \<open>.\<close>, and white space after it. When something follows \<open><![\<close> that is
  no name, or when the name is followed by more text and is none of the known keywords,
  the parser raises \<open>AssertionError\<close>; when the markup ends with the name nothing is
  raised.
\<close>

definition is_alpha :: "char \<Rightarrow> bool" where
  "is_alpha c = (let n = (of_char c :: nat) in (65 \<le> n \<and> n \<le> 90) \<or> (97 \<le> n \<and> n \<le> 122))"

definition is_declname_char :: "char \<Rightarrow> bool" where
  "is_declname_char c =
     (is_alpha c \<or> is_digit c \<or> c = CHR ''-'' \<or> c = CHR ''_'' \<or> c = CHR ''.'')"

definition marked_section_rejected :: "string \<Rightarrow> bool" where
  "marked_section_rejected rawdata =
     (case rawdata of
        c1 # c2 # c3 # c # rest \<Rightarrow>
          c1 = CHR ''<'' \<and> c2 = CHR ''!'' \<and> c3 = CHR ''['' \<and>
          (if is_alpha c then
             (let sect_name = c # takeWhile is_declname_char rest
              in lstrip (dropWhile is_declname_char rest) \<noteq> [] \<and>
                 lower sect_name \<notin> set [''temp'', ''cdata'', ''ignore'', ''include'', ''rcdata'',
                                         ''if'', ''else'', ''endif''])
           else True)
      | _ \<Rightarrow> False)"

text \<open>
  \<open>BeautifulSoup(html_content, 'html.parser')\<close>: the rejection above, and for every other
  markup what the parser makes of it.
\<close>

definition BeautifulSoup :: "env \<Rightarrow> string \<Rightarrow> exn + node" where
  "BeautifulSoup ev markup =
     (if marked_section_rejected markup then Inl ParserRejectedMarkup else html_tree ev markup)"

text \<open>
  \<open>parse_faceitanalyser\<close>: line 308 builds the soup, outside any \<open>try\<close>; the rest is
  \<open>parse_soup\<close>.
\<close>

definition parse_faceitanalyser :: "env \<Rightarrow> string \<Rightarrow> exn + player_stats option" where
  "parse_faceitanalyser ev html_content =
     (case BeautifulSoup ev html_content of
        Inl e \<Rightarrow> Inl e
      | Inr soup \<Rightarrow> Inr (parse_soup soup))"

section \<open>Fetching the page (utils.py, download\_page)\<close>

text \<open>
  The handler of \<open>download_page\<close> is \<open>raise (f"...")\<close>: raising a \<open>str\<close>, which is no
  exception, raises \<open>TypeError\<close>.
\<close>

definition download_page :: "env \<Rightarrow> world \<Rightarrow> string \<Rightarrow> (exn + string) \<times> world" where
  "download_page ev w url =
     (case requests_get ev w url of (got, w1) \<Rightarrow>
        (let body = (case got of
                       Inl e \<Rightarrow> Inl e
                     | Inr r \<Rightarrow>
                         (case raise_for_status r of
                            Inl e \<Rightarrow> Inl e
                          | Inr u \<Rightarrow> Inr (response_text r)))
         in (case body of
               Inl e \<Rightarrow> if e = RequestException then Inl TypeError else Inl e
             | Inr t \<Rightarrow> Inr t),
         w1))"

section \<open>The bot (faceitcs2stats\_bot.py)\<close>

definition get_html_page_by_nickname :: "env \<Rightarrow> world \<Rightarrow> string \<Rightarrow> (exn + string) \<times> world" where
  "get_html_page_by_nickname ev w nickname =
     download_page ev w (''https://faceitanalyser.com/stats/'' @ nickname @ ''/cs2'')"

definition get_user_stat ::
  "env \<Rightarrow> world \<Rightarrow> string \<Rightarrow> (exn + player_stats option) \<times> world" where
  "get_user_stat ev w nickname =
     (case get_html_page_by_nickname ev w nickname of
        (Inl e, w1) \<Rightarrow> (Inl e, w1)
      | (Inr faceitanalyser_html, w1) \<Rightarrow> (parse_faceitanalyser ev faceitanalyser_html, w1))"

subsection \<open>The table users\<close>

text \<open>
  \<open>sqlite3.connect\<close>: the connection gets the number of the call; \<open>conn\<close> stays \<open>None\<close>
  when it raises. \<open>conn.close()\<close> gives the connection back.
\<close>

definition connect :: "env \<Rightarrow> world \<Rightarrow> (exn + nat) \<times> world" where
  "connect ev w =
     (let n = connects w; w0 = w\<lparr>connects := Suc n\<rparr>
      in if sql_fails ev n Connect then (Inl SqliteError, w0)
         else (Inr n, w0\<lparr>open_conns := Suc (open_conns w0)\<rparr>))"

definition close :: "world \<Rightarrow> world" where
  "close w = w\<lparr>open_conns := open_conns w - 1\<rparr>"

text \<open>One statement on a connection: it raises \<open>sqlite3.Error\<close> when the store fails there.\<close>

definition sql_step :: "env \<Rightarrow> nat \<Rightarrow> sql_op \<Rightarrow> exn + unit" where
  "sql_step ev conn op = (if sql_fails ev conn op then Inl SqliteError else Inr ())"

text \<open>\<open>SELECT ... WHERE telegram_id = ?\<close> and \<open>fetchone()\<close>: the first such row.\<close>

definition sql_select :: "user_row list \<Rightarrow> telegram_id \<Rightarrow> user_row option" where
  "sql_select rows tid = find (\<lambda>r. row_telegram_id r = tid) rows"

text \<open>\<open>UPDATE users SET faceit_nickname = ?, registered_at = CURRENT_TIMESTAMP WHERE ...\<close>.\<close>

definition sql_update :: "user_row list \<Rightarrow> telegram_id \<Rightarrow> string \<Rightarrow> nat \<Rightarrow> user_row list" where
  "sql_update rows tid nick now =
     map (\<lambda>r. if row_telegram_id r = tid
               then r\<lparr>row_faceit_nickname := nick, row_registered_at := now\<rparr> else r) rows"

text \<open>
  \<open>INSERT INTO users (telegram_id, faceit_nickname)\<close>: \<open>registered_at\<close> takes its default,
  \<open>CURRENT_TIMESTAMP\<close>; a second row with the primary key is an \<open>IntegrityError\<close>.
\<close>

definition sql_insert :: "user_row list \<Rightarrow> telegram_id \<Rightarrow> string \<Rightarrow> nat \<Rightarrow> exn + user_row list" where
  "sql_insert rows tid nick now =
     (if tid \<in> set (map row_telegram_id rows) then Inl SqliteError
      else Inr (rows @ [\<lparr>row_telegram_id = tid, row_faceit_nickname = nick,
                         row_registered_at = now\<rparr>]))"

text \<open>The body of the \<open>try\<close> of \<open>get_faceit_nickname_from_db\<close>, after the connection.\<close>

definition lookup_body :: "env \<Rightarrow> nat \<Rightarrow> user_row list \<Rightarrow> telegram_id \<Rightarrow> exn + string option" where
  "lookup_body ev conn rows telegram_id =
     (case sql_step ev conn Cursor of Inl e \<Rightarrow> Inl e | Inr u1 \<Rightarrow>
     (case sql_step ev conn Select of Inl e \<Rightarrow> Inl e | Inr u2 \<Rightarrow>
     (case sql_step ev conn Fetchone of Inl e \<Rightarrow> Inl e | Inr u3 \<Rightarrow>
        (case sql_select rows telegram_id of
           Some result \<Rightarrow> Inr (Some (row_faceit_nickname result))
         | None \<Rightarrow> Inr None))))"

text \<open>
  \<open>except sqlite3.Error: return None\<close>; any other exception leaves the function. The
  \<open>finally\<close> closes the connection if there is one.
\<close>

definition except_sqlite :: "exn + 'a option \<Rightarrow> exn + 'a option" where
  "except_sqlite r = (case r of Inl e \<Rightarrow> if e = SqliteError then Inr None else Inl e
                      | Inr v \<Rightarrow> Inr v)"

definition get_faceit_nickname_from_db ::
  "env \<Rightarrow> world \<Rightarrow> telegram_id \<Rightarrow> (exn + string option) \<times> world" where
  "get_faceit_nickname_from_db ev w telegram_id =
     (case connect ev w of
        (Inl e, w1) \<Rightarrow> (except_sqlite (Inl e), w1)
      | (Inr conn, w1) \<Rightarrow>
          (except_sqlite (lookup_body ev conn (users w1) telegram_id), close w1))"

text \<open>
  The body of the \<open>try\<close> of \<open>register_user\<close>, after the connection: the rows to commit.
  Nothing is written before \<open>conn.commit()\<close> returns.
\<close>

definition upsert_body ::
  "env \<Rightarrow> nat \<Rightarrow> user_row list \<Rightarrow> telegram_id \<Rightarrow> string \<Rightarrow> exn + user_row list" where
  "upsert_body ev conn rows telegram_id faceit_nickname =
     (case sql_step ev conn Cursor of Inl e \<Rightarrow> Inl e | Inr u1 \<Rightarrow>
     (case sql_step ev conn Select of Inl e \<Rightarrow> Inl e | Inr u2 \<Rightarrow>
     (case sql_step ev conn Fetchone of Inl e \<Rightarrow> Inl e | Inr u3 \<Rightarrow>
     (case sql_step ev conn Write of Inl e \<Rightarrow> Inl e | Inr u4 \<Rightarrow>
     (case (case sql_select rows telegram_id of
              Some existing_user \<Rightarrow>
                Inr (sql_update rows telegram_id faceit_nickname (current_timestamp ev conn))
            | None \<Rightarrow> sql_insert rows telegram_id faceit_nickname (current_timestamp ev conn)) of
        Inl e \<Rightarrow> Inl e
      | Inr rows' \<Rightarrow>
     (case sql_step ev conn Commit of Inl e \<Rightarrow> Inl e | Inr u5 \<Rightarrow> Inr rows'))))))"

definition register_user ::
  "env \<Rightarrow> world \<Rightarrow> telegram_id \<Rightarrow> string \<Rightarrow> (exn + player_stats option) \<times> world" where
  "register_user ev w telegram_id faceit_nickname =
     (case get_user_stat ev w faceit_nickname of
        (Inl e, w1) \<Rightarrow> (Inl e, w1)
      | (Inr None, w1) \<Rightarrow> (Inr None, w1)
      | (Inr (Some user_stats), w1) \<Rightarrow>
          (case connect ev w1 of
             (Inl e, w2) \<Rightarrow> (except_sqlite (Inl e), w2)
           | (Inr conn, w2) \<Rightarrow>
               (case upsert_body ev conn (users w2) telegram_id faceit_nickname of
                  Inl e \<Rightarrow> (except_sqlite (Inl e), close w2)
                | Inr rows' \<Rightarrow> (Inr (Some user_stats), close (w2\<lparr>users := rows'\<rparr>)))))"

subsection \<open>The registration dialogue\<close>

record message =
  from_user_id :: telegram_id
  chat_id :: int
  chat_type :: string
  message_text :: string

definition send_message :: "world \<Rightarrow> int \<Rightarrow> bot_text \<Rightarrow> world" where
  "send_message w chat txt = w\<lparr>outbox := outbox w @ [(chat, SendMessage txt)]\<rparr>"

definition send_high_quality_photo ::
  "world \<Rightarrow> int \<Rightarrow> canvas \<Rightarrow> bot_text \<Rightarrow> string option \<Rightarrow> world" where
  "send_high_quality_photo w chat img caption parse_mode =
     w\<lparr>outbox := outbox w @ [(chat, SendPhoto img caption parse_mode)]\<rparr>"

definition start_registration :: "world \<Rightarrow> message \<Rightarrow> world" where
  "start_registration w m =
     send_message
       (w\<lparr>user_registration_data :=
            (user_registration_data w)(from_user_id m \<mapsto> \<lparr>waiting_for_login = True\<rparr>)\<rparr>)
       (chat_id m) REGISTRATION_MSG"

text \<open>The filter of the handler \<open>handle_registration_input\<close> (lines 181 to 185).\<close>

definition awaits_nickname :: "world \<Rightarrow> message \<Rightarrow> bool" where
  "awaits_nickname w m =
     (chat_type m = ''private'' \<and>
      (case user_registration_data w (from_user_id m) of
         None \<Rightarrow> False
       | Some entry \<Rightarrow> waiting_for_login entry))"

text \<open>
  \<open>handle_registration_input\<close>; its result is \<open>Some False\<close> for \<open>return False\<close> and \<open>None\<close>
  when the function ends without a \<open>return\<close>.
\<close>

definition handle_registration_input ::
  "env \<Rightarrow> world \<Rightarrow> message \<Rightarrow> (exn + bool option) \<times> world" where
  "handle_registration_input ev w m =
     (let user_id = from_user_id m; nickname = strip (message_text m)
      in case register_user ev w user_id nickname of
           (Inl e, w1) \<Rightarrow> (Inl e, w1)
         | (Inr None, w1) \<Rightarrow> (Inr (Some False), send_message w1 (chat_id m) NICKNAME_NOT_FOUND)
         | (Inr (Some user_data), w1) \<Rightarrow>
             (let w2 = w1\<lparr>user_registration_data :=
                          (user_registration_data w1)(user_id \<mapsto> \<lparr>waiting_for_login = False\<rparr>)\<rparr>
              in case generate_player_card ev w2 user_data of
                   (Inl e, w3) \<Rightarrow> (Inl e, w3)
                 | (Inr stat_img, w3) \<Rightarrow>
                     (Inr None,
                      send_high_quality_photo w3 (chat_id m) stat_img REGISTRATION_OK None)))"

text \<open>The two lists that \<open>parse_block\<close> pairs.\<close>

abbreviation item_title_spans :: "node \<Rightarrow> node list" where
  "item_title_spans block \<equiv> find_all block (has_class ''span'' ''stats_totals_block_item_title'')"

abbreviation item_value_spans :: "node \<Rightarrow> node list" where
  "item_value_spans block \<equiv> find_all block (has_class ''span'' ''stats_totals_block_item_value'')"

section \<open>Example pages\<close>

definition stats_block_example :: node where
  "stats_block_example =
     Tag ''div'' [''stats_totals_block_wrapper''] []
       [Tag ''span'' [''stats_totals_block_title_text''] [] [NavigableString ''Winrate''],
        Tag ''span'' [''stats_totals_block_main_value_span''] [] [NavigableString '' 49 ''],
        Tag ''span'' [''stats_totals_block_item_title''] [] [NavigableString ''Wins''],
        Tag ''span'' [''stats_totals_block_item_value''] [] [NavigableString ''490''],
        Tag ''span'' [''stats_totals_block_item_title''] [] [NavigableString ''Losses''],
        Tag ''span'' [''stats_totals_block_item_value''] [] [NavigableString ''510''],
        Tag ''span'' [''stats_totals_block_item_title''] [] [NavigableString ''Streak'']]"

definition page_full :: node where
  "page_full =
     Tag ''[document]'' [] []
       [Tag ''img'' [''stats_profile_avatar''] [(''src'', ''https://cdn.example/avatar.jpg'')] [],
        Tag ''img'' [''stats_profile_level_image''] [(''src'', ''/static/flags/ua.svg'')] [],
        Tag ''img'' [''stats_profile_level_image''] [(''src'', ''/static/levels/10.svg'')] [],
        Tag ''span'' [''stats_profile_name_span''] [] [NavigableString ''s1mple''],
        Tag ''span'' [''stats_profile_elo_span''] [] [NavigableString '' 3500 ''],
        Tag ''div'' [] [(''id'', ''view1_stats'')] [stats_block_example],
        Tag ''div'' [] [(''id'', ''view2_stats'')] []]"

definition page_no_avatar :: node where
  "page_no_avatar =
     Tag ''[document]'' [] []
       [Tag ''img'' [''stats_profile_level_image''] [(''src'', ''/static/flags/ua.svg'')] [],
        Tag ''img'' [''stats_profile_level_image''] [(''src'', ''/static/levels/10.svg'')] [],
        Tag ''span'' [''stats_profile_name_span''] [] [NavigableString ''s1mple''],
        Tag ''span'' [''stats_profile_elo_span''] [] [NavigableString ''3500''],
        Tag ''div'' [] [(''id'', ''view1_stats'')] [],
        Tag ''div'' [] [(''id'', ''view2_stats'')] []]"

definition page_no_elo :: node where
  "page_no_elo =
     Tag ''[document]'' [] []
       [Tag ''span'' [''stats_profile_name_span''] [] [NavigableString ''s1mple''],
        Tag ''div'' [] [(''id'', ''view1_stats'')] [],
        Tag ''div'' [] [(''id'', ''view2_stats'')] []]"

definition page_empty_name :: node where
  "page_empty_name =
     Tag ''[document]'' [] []
       [Tag ''span'' [''stats_profile_name_span''] [] [],
        Tag ''span'' [''stats_profile_elo_span''] [] [NavigableString ''2100''],
        Tag ''div'' [] [(''id'', ''view1_stats'')] [],
        Tag ''div'' [] [(''id'', ''view2_stats'')] []]"

definition page_absolute_flag :: node where
  "page_absolute_flag =
     Tag ''[document]'' [] []
       [Tag ''img'' [''stats_profile_level_image''] [(''src'', ''https://cdn.example/ua.svg'')] [],
        Tag ''span'' [''stats_profile_name_span''] [] [NavigableString ''s1mple''],
        Tag ''span'' [''stats_profile_elo_span''] [] [NavigableString ''2100''],
        Tag ''div'' [] [(''id'', ''view1_stats'')] [],
        Tag ''div'' [] [(''id'', ''view2_stats'')] []]"

text \<open>
  The markup of three of these pages, and a parser that knows them: it gives each of
  the three its tree, and an empty document for any other markup.
\<close>

definition html_full :: string where
  "html_full =
     ''<img class=stats_profile_avatar src=https://cdn.example/avatar.jpg>'' @
     ''<img class=stats_profile_level_image src=/static/flags/ua.svg>'' @
     ''<img class=stats_profile_level_image src=/static/levels/10.svg>'' @
     ''<span class=stats_profile_name_span>s1mple</span>'' @
     ''<span class=stats_profile_elo_span> 3500 </span><div id=view1_stats>'' @
     ''<div class=stats_totals_block_wrapper>'' @
     ''<span class=stats_totals_block_title_text>Winrate</span>'' @
     ''<span class=stats_totals_block_main_value_span> 49 </span>'' @
     ''<span class=stats_totals_block_item_title>Wins</span>'' @
     ''<span class=stats_totals_block_item_value>490</span>'' @
     ''<span class=stats_totals_block_item_title>Losses</span>'' @
     ''<span class=stats_totals_block_item_value>510</span>'' @
     ''<span class=stats_totals_block_item_title>Streak</span></div></div>'' @
     ''<div id=view2_stats></div>''"

definition html_no_elo :: string where
  "html_no_elo =
     ''<span class=stats_profile_name_span>s1mple</span><div id=view1_stats>'' @
     ''</div><div id=view2_stats></div>''"

definition html_empty_name :: string where
  "html_empty_name =
     ''<span class=stats_profile_name_span></span>'' @
     ''<span class=stats_profile_elo_span>2100</span><div id=view1_stats></div>'' @
     ''<div id=view2_stats></div>''"

definition example_parser :: "string \<Rightarrow> exn + node" where
  "example_parser markup =
     (if markup = html_full then Inr page_full
      else if markup = html_no_elo then Inr page_no_elo
      else if markup = html_empty_name then Inr page_empty_name
      else Inr (Tag ''[document]'' [] [] []))"

section \<open>Example blocks and surroundings\<close>

definition winrate_49 :: stat_block where
  "winrate_49 = \<lparr>title = Some ''Winrate'', main_value = Some ''49'', items = []\<rparr>"

definition matches_na :: stat_block where
  "matches_na = \<lparr>title = Some ''Matches'', main_value = Some ''n/a'', items = []\<rparr>"

definition winrate_na :: stat_block where
  "winrate_na = \<lparr>title = Some ''Winrate'', main_value = Some ''n/a'', items = []\<rparr>"

text \<open>No network, no store, no image decoder; the fonts are there.\<close>

definition env_offline :: env where
  "env_offline =
     \<lparr>http_get = (\<lambda>n url. ConnectionFailure),
      html_tree = example_parser,
      sql_fails = (\<lambda>n op. True),
      current_timestamp = (\<lambda>n. 1700000000 + n),
      svg_converts = (\<lambda>bytes. False),
      image_opens = (\<lambda>bytes. False),
      font_files = [montserrat_medium, montserrat_bold],
      text_width = (\<lambda>f s. 14 * int (length s))\<rparr>"

text \<open>
  The site answers every request: the page of \<open>ghost\<close> lacks the ELO span, every other
  page is \<open>page_full\<close>; the store works.
\<close>

definition env_online :: env where
  "env_online =
     \<lparr>http_get = (\<lambda>n url.
        if url = ''https://faceitanalyser.com/stats/ghost/cs2''
        then Response \<lparr>status_code = 200, content_type = Some ''text/html'', content = [],
                         response_text = html_no_elo\<rparr>
        else Response \<lparr>status_code = 200, content_type = Some ''text/html'', content = [],
                         response_text = html_full\<rparr>),
      html_tree = example_parser,
      sql_fails = (\<lambda>n op. False),
      current_timestamp = (\<lambda>n. 1700000000 + n),
      svg_converts = (\<lambda>bytes. True),
      image_opens = (\<lambda>bytes. True),
      font_files = [montserrat_medium, montserrat_bold],
      text_width = (\<lambda>f s. 14 * int (length s))\<rparr>"

text \<open>The site answers every request with the status 404; the store works.\<close>

definition env_not_found :: env where
  "env_not_found =
     \<lparr>http_get = (\<lambda>n url.
        Response \<lparr>status_code = 404, content_type = Some ''text/html'', content = [],
                    response_text = []\<rparr>),
      html_tree = example_parser,
      sql_fails = (\<lambda>n op. False),
      current_timestamp = (\<lambda>n. 1700000000 + n),
      svg_converts = (\<lambda>bytes. True),
      image_opens = (\<lambda>bytes. True),
      font_files = [montserrat_medium, montserrat_bold],
      text_width = (\<lambda>f s. 14 * int (length s))\<rparr>"

definition world0 :: world where
  "world0 = \<lparr>requests = [], connects = 0, open_conns = 0, users = [],
     user_registration_data = Map.empty, outbox = []\<rparr>"

definition ghost_message :: message where
  "ghost_message = \<lparr>from_user_id = 42, chat_id = 42, chat_type = ''private'',
     message_text = '' ghost ''\<rparr>"

definition s1mple_message :: message where
  "s1mple_message = \<lparr>from_user_id = 42, chat_id = 42, chat_type = ''private'',
     message_text = ''s1mple''\<rparr>"

section \<open>Properties of the extraction\<close>

lemma level_loop_other:
  "name (level_loop d xs) = name d \<and> elo (level_loop d xs) = elo d \<and>
   avatar_url (level_loop d xs) = avatar_url d \<and>
   view1_stats (level_loop d xs) = view1_stats d \<and> view2_stats (level_loop d xs) = view2_stats d"
  by (induction d xs rule: level_loop.induct) (auto split: option.splits)

lemma level_loop_take2_flag:
  "flag_url (level_loop d (enumerate 0 (take 2 imgs))) =
     (case imgs of
        [] \<Rightarrow> flag_url d
      | a # rest \<Rightarrow>
          (case truthy_src a of None \<Rightarrow> flag_url d | Some s \<Rightarrow> Some (base_origin @ s)))"
proof (cases imgs)
  case Nil
  then show ?thesis by simp
next
  case (Cons a rest)
  then show ?thesis
    by (cases rest) (auto simp: numeral_2_eq_2 split: option.splits)
qed

lemma level_loop_take2_level:
  "level_url (level_loop d (enumerate 0 (take 2 imgs))) =
     (case imgs of
        a # b # rest \<Rightarrow>
          (case truthy_src b of None \<Rightarrow> level_url d | Some s \<Rightarrow> Some (base_origin @ s))
      | _ \<Rightarrow> level_url d)"
proof (cases imgs)
  case Nil
  then show ?thesis by simp
next
  case (Cons a rest)
  then show ?thesis
    by (cases rest) (auto simp: numeral_2_eq_2 split: option.splits)
qed

lemma parse_page_full:
  "parse_soup page_full =
     Some \<lparr>avatar_url = Some ''https://cdn.example/avatar.jpg'',
            flag_url = Some ''https://faceitanalyser.com//static/flags/ua.svg'',
            level_url = Some ''https://faceitanalyser.com//static/levels/10.svg'',
            name = Some ''s1mple'', elo = Some ''3500'',
            view1_stats = Some [\<lparr>title = Some ''Winrate'', main_value = Some ''49'',
              items = [\<lparr>item_title = ''Wins'', item_value = ''490''\<rparr>,
                       \<lparr>item_title = ''Losses'', item_value = ''510''\<rparr>]\<rparr>],
            view2_stats = Some []\<rparr>"
  by code_simp

lemma parse_page_no_avatar:
  "parse_soup page_no_avatar =
     Some \<lparr>avatar_url = None,
            flag_url = Some ''https://faceitanalyser.com//static/flags/ua.svg'',
            level_url = Some ''https://faceitanalyser.com//static/levels/10.svg'',
            name = Some ''s1mple'', elo = Some ''3500'',
            view1_stats = Some [], view2_stats = Some []\<rparr>"
  by code_simp

lemma parse_page_no_elo:
  "parse_soup page_no_elo = None"
  by code_simp

lemma find_page_full:
  "find_first page_full (has_class ''span'' ''stats_profile_name_span'') =
     Some (Tag ''span'' [''stats_profile_name_span''] [] [NavigableString ''s1mple''])"
  "find_first page_full (has_class ''span'' ''stats_profile_elo_span'') =
     Some (Tag ''span'' [''stats_profile_elo_span''] [] [NavigableString '' 3500 ''])"
  "find_first page_full (has_id ''div'' ''view1_stats'') =
     Some (Tag ''div'' [] [(''id'', ''view1_stats'')] [stats_block_example])"
  "find_first page_full (has_id ''div'' ''view2_stats'') =
     Some (Tag ''div'' [] [(''id'', ''view2_stats'')] [])"
  by (simp_all add: page_full_def stats_block_example_def find_first_def find_all_def)

lemma parse_soup_absent_or_record:
  "(find_first soup (has_class ''span'' ''stats_profile_name_span'') = None \<or>
    find_first soup (has_class ''span'' ''stats_profile_elo_span'') = None \<or>
    find_first soup (has_id ''div'' ''view1_stats'') = None \<or>
    find_first soup (has_id ''div'' ''view2_stats'') = None
      \<longrightarrow> parse_soup soup = None) \<and>
   (\<forall>name_span elo_span div1 div2.
      find_first soup (has_class ''span'' ''stats_profile_name_span'') = Some name_span \<and>
      find_first soup (has_class ''span'' ''stats_profile_elo_span'') = Some elo_span \<and>
      find_first soup (has_id ''div'' ''view1_stats'') = Some div1 \<and>
      find_first soup (has_id ''div'' ''view2_stats'') = Some div2
      \<longrightarrow> (\<exists>data. parse_soup soup = Some data \<and>
             name data = Some (get_text name_span) \<and>
             elo data = Some (get_text elo_span) \<and>
             view1_stats data = Some (parse_view_stats_div div1) \<and>
             view2_stats data = Some (parse_view_stats_div div2)))"
  by (auto simp add: parse_soup_def Let_def level_loop_other split: option.splits)

text \<open>The whole function is \<open>parse_soup\<close> on the tree that the parser gives.\<close>

lemma parse_faceitanalyser_soup:
  "BeautifulSoup ev html_content = Inr soup \<Longrightarrow>
     parse_faceitanalyser ev html_content = Inr (parse_soup soup)"
  by (simp add: parse_faceitanalyser_def)

text \<open>The parser on the example markups.\<close>

lemma example_markups_differ:
  "html_no_elo \<noteq> html_full" "html_empty_name \<noteq> html_full" "html_empty_name \<noteq> html_no_elo"
  by (simp_all add: html_full_def html_no_elo_def html_empty_name_def)

lemma example_markups_accepted:
  "\<not> marked_section_rejected html_full" "\<not> marked_section_rejected html_no_elo"
  "\<not> marked_section_rejected html_empty_name"
  by (simp_all add: marked_section_rejected_def html_full_def html_no_elo_def
      html_empty_name_def)

lemma example_soups:
  assumes "html_tree ev = example_parser"
  shows "BeautifulSoup ev html_full = Inr page_full"
    and "BeautifulSoup ev html_no_elo = Inr page_no_elo"
    and "BeautifulSoup ev html_empty_name = Inr page_empty_name"
  by (simp_all add: BeautifulSoup_def example_markups_accepted assms example_parser_def
      example_markups_differ)

lemma env_online_parser:
  "html_tree env_online = example_parser"
  by (simp add: env_online_def)

lemma foo_bar_rejected:
  "marked_section_rejected ''<![foo bar]>''"
  by code_simp

lemma unknown_marked_section:
  "BeautifulSoup ev ''<![foo bar]>'' = Inl ParserRejectedMarkup"
  by (simp only: BeautifulSoup_def foo_bar_rejected if_True)

lemma parse_html_full:
  "parse_faceitanalyser env_online html_full = Inr (parse_soup page_full)"
  by (simp add: parse_faceitanalyser_def example_soups [OF env_online_parser])

lemma parse_html_no_elo:
  "parse_faceitanalyser env_online html_no_elo = Inr None"
  by (simp add: parse_faceitanalyser_def example_soups [OF env_online_parser] parse_page_no_elo)

text \<open>Text that is only white space, here a no-break space, is stripped to nothing.\<close>

lemma get_text_examples:
  "get_text (Tag ''span'' [''stats_profile_name_span''] [] [NavigableString ''s1mple'']) = ''s1mple''"
  "get_text (Tag ''span'' [''stats_profile_elo_span''] [] [NavigableString '' 3500 '']) = ''3500''"
  "get_text (Tag ''span'' [''stats_profile_name_span''] []
     [NavigableString [CHR 0xC2, CHR 0xA0]]) = []"
  by code_simp+

text \<open>
  C1, as the code has it. For every HTML input: when the parser of BeautifulSoup rejects
  the markup, its exception leaves \<open>parse_faceitanalyser\<close>, line 308 being outside any
  \<open>try\<close>. When the parser gives a tree, \<open>parse_faceitanalyser\<close> does not raise: it returns
  \<open>None\<close> whenever the name span, the ELO span, the container \<open>view1_stats\<close> or the
  container \<open>view2_stats\<close> is missing, and for a page that has all four it returns a
  record whose \<open>name\<close> and \<open>elo\<close> are present and are the stripped texts of the two spans,
  and whose two views are the blocks parsed from the two containers. The texts are not
  checked: a span without text gives an empty \<open>name\<close> or \<open>elo\<close>.
\<close>

theorem parse_faceitanalyser_absent_or_record:
  "(\<forall>e. BeautifulSoup ev html_content = Inl e \<longrightarrow> parse_faceitanalyser ev html_content = Inl e) \<and>
   (\<forall>soup. BeautifulSoup ev html_content = Inr soup \<longrightarrow>
      (find_first soup (has_class ''span'' ''stats_profile_name_span'') = None \<or>
       find_first soup (has_class ''span'' ''stats_profile_elo_span'') = None \<or>
       find_first soup (has_id ''div'' ''view1_stats'') = None \<or>
       find_first soup (has_id ''div'' ''view2_stats'') = None
         \<longrightarrow> parse_faceitanalyser ev html_content = Inr None) \<and>
      (\<forall>name_span elo_span div1 div2.
         find_first soup (has_class ''span'' ''stats_profile_name_span'') = Some name_span \<and>
         find_first soup (has_class ''span'' ''stats_profile_elo_span'') = Some elo_span \<and>
         find_first soup (has_id ''div'' ''view1_stats'') = Some div1 \<and>
         find_first soup (has_id ''div'' ''view2_stats'') = Some div2
         \<longrightarrow> (\<exists>data. parse_faceitanalyser ev html_content = Inr (Some data) \<and>
                name data = Some (get_text name_span) \<and>
                elo data = Some (get_text elo_span) \<and>
                view1_stats data = Some (parse_view_stats_div div1) \<and>
                view2_stats data = Some (parse_view_stats_div div2))))"
proof -
  have raised: "parse_faceitanalyser ev html_content = Inl e"
    if "BeautifulSoup ev html_content = Inl e" for e
    using that by (simp add: parse_faceitanalyser_def)
  have parsed: "parse_faceitanalyser ev html_content = Inr (parse_soup soup)"
    if "BeautifulSoup ev html_content = Inr soup" for soup
    using that by (simp add: parse_faceitanalyser_def)
  show ?thesis
    using raised parsed parse_soup_absent_or_record by simp
qed

theorem parse_faceitanalyser_absent_or_record_witness:
  "parse_faceitanalyser env_online ''<![foo bar]>'' = Inl ParserRejectedMarkup \<and>
   parse_faceitanalyser env_online html_no_elo = Inr None \<and>
   (\<exists>data. parse_faceitanalyser env_online html_full = Inr (Some data) \<and>
      name data = Some ''s1mple'' \<and> elo data = Some ''3500'' \<and>
      map_option length (view1_stats data) = Some 1 \<and> view2_stats data = Some [])"
proof -
  note inst = parse_faceitanalyser_absent_or_record [where ev = env_online]
  note soups = example_soups [OF env_online_parser]
  have rejected: "parse_faceitanalyser env_online ''<![foo bar]>'' = Inl ParserRejectedMarkup"
    using inst [of "''<![foo bar]>''"] unknown_marked_section [of env_online] by simp
  have "find_first page_no_elo (has_class ''span'' ''stats_profile_elo_span'') = None"
    by (simp add: page_no_elo_def find_first_def find_all_def)
  with inst [of html_no_elo] soups(2)
  have absent: "parse_faceitanalyser env_online html_no_elo = Inr None"
    by simp
  from inst [of html_full] soups(1) find_page_full
  obtain data where d: "parse_faceitanalyser env_online html_full = Inr (Some data)"
    "name data =
       Some (get_text (Tag ''span'' [''stats_profile_name_span''] [] [NavigableString ''s1mple'']))"
    "elo data =
       Some (get_text (Tag ''span'' [''stats_profile_elo_span''] [] [NavigableString '' 3500 '']))"
    "view1_stats data =
       Some (parse_view_stats_div (Tag ''div'' [] [(''id'', ''view1_stats'')] [stats_block_example]))"
    "view2_stats data = Some (parse_view_stats_div (Tag ''div'' [] [(''id'', ''view2_stats'')] []))"
    by auto
  have "name data = Some ''s1mple''" "elo data = Some ''3500''"
    using d(2,3) by (simp_all add: get_text_examples)
  moreover have "map_option length (view1_stats data) = Some 1" "view2_stats data = Some []"
    using d(4,5) by (simp_all add: parse_view_stats_div_def find_all_def stats_block_example_def)
  ultimately have "\<exists>data. parse_faceitanalyser env_online html_full = Inr (Some data) \<and>
      name data = Some ''s1mple'' \<and> elo data = Some ''3500'' \<and>
      map_option length (view1_stats data) = Some 1 \<and> view2_stats data = Some []"
    using d(1) by (intro exI [of _ data]) simp
  with rejected absent show ?thesis
    by (intro conjI)
qed

text \<open>
  C1 as stated fails twice. The markup \<open>html_empty_name\<close> has both spans and both
  containers, and the record returned for it has the empty string as \<open>name\<close>. And the
  markup \<open><![foo bar]>\<close> is an HTML input on which the function raises.
\<close>

theorem empty_name_span_counterexample:
  "BeautifulSoup env_online html_empty_name = Inr page_empty_name \<and>
   find_first page_empty_name (has_class ''span'' ''stats_profile_name_span'') \<noteq> None \<and>
   find_first page_empty_name (has_class ''span'' ''stats_profile_elo_span'') \<noteq> None \<and>
   find_first page_empty_name (has_id ''div'' ''view1_stats'') \<noteq> None \<and>
   find_first page_empty_name (has_id ''div'' ''view2_stats'') \<noteq> None \<and>
   map_sum id (map_option name) (parse_faceitanalyser env_online html_empty_name) =
     Inr (Some (Some [])) \<and>
   parse_faceitanalyser env_online ''<![foo bar]>'' = Inl ParserRejectedMarkup"
proof -
  have soup: "BeautifulSoup env_online html_empty_name = Inr page_empty_name"
    by (rule example_soups [OF env_online_parser])
  have spans: "find_first page_empty_name (has_class ''span'' ''stats_profile_name_span'') \<noteq> None"
    "find_first page_empty_name (has_class ''span'' ''stats_profile_elo_span'') \<noteq> None"
    "find_first page_empty_name (has_id ''div'' ''view1_stats'') \<noteq> None"
    "find_first page_empty_name (has_id ''div'' ''view2_stats'') \<noteq> None"
    by (simp_all add: page_empty_name_def find_first_def find_all_def)
  have "map_option name (parse_soup page_empty_name) = Some (Some [])"
    by (simp add: page_empty_name_def parse_soup_def find_first_def find_all_def
        get_text_def empty_stats_def parse_view_stats_div_def)
  then have empty: "map_sum id (map_option name) (parse_faceitanalyser env_online html_empty_name) =
     Inr (Some (Some []))"
    by (simp add: parse_faceitanalyser_def soup)
  have rejected: "parse_faceitanalyser env_online ''<![foo bar]>'' = Inl ParserRejectedMarkup"
    by (simp add: parse_faceitanalyser_def unknown_marked_section)
  from soup spans empty rejected show ?thesis
    by (intro conjI)
qed

text \<open>
  C8, as the code has it. Of the elements with the level-image class only the first two
  count: the first gives \<open>flag_url\<close> and the second gives \<open>level_url\<close>, each when its
  \<open>src\<close> is there and not empty, and each URL is the source's with the base origin
  \<open>https://faceitanalyser.com/\<close> put before it, whether the source's URL is relative or
  not. The statement is about \<open>parse_soup\<close>, which is \<open>parse_faceitanalyser\<close> from the
  tree on (\<open>parse_faceitanalyser_soup\<close>).
\<close>

theorem level_images_flag_then_level:
  assumes "parse_soup soup = Some data"
  shows "flag_url data =
           (case find_all soup (has_class ''img'' ''stats_profile_level_image'') of
              [] \<Rightarrow> None
            | first_img # rest \<Rightarrow>
                map_option ((@) ''https://faceitanalyser.com/'') (truthy_src first_img)) \<and>
         level_url data =
           (case find_all soup (has_class ''img'' ''stats_profile_level_image'') of
              first_img # second_img # rest \<Rightarrow>
                map_option ((@) ''https://faceitanalyser.com/'') (truthy_src second_img)
            | _ \<Rightarrow> None)"
  using assms
  by (auto simp add: parse_soup_def Let_def empty_stats_def level_loop_take2_flag
      level_loop_take2_level base_origin_def split: option.splits list.splits)

theorem level_images_flag_then_level_witness:
  "map_option flag_url (parse_soup page_full) =
     Some (Some ''https://faceitanalyser.com//static/flags/ua.svg'') \<and>
   map_option level_url (parse_soup page_full) =
     Some (Some ''https://faceitanalyser.com//static/levels/10.svg'')"
proof -
  have imgs: "find_all page_full (has_class ''img'' ''stats_profile_level_image'') =
     [Tag ''img'' [''stats_profile_level_image''] [(''src'', ''/static/flags/ua.svg'')] [],
      Tag ''img'' [''stats_profile_level_image''] [(''src'', ''/static/levels/10.svg'')] []]"
    by (simp add: page_full_def stats_block_example_def find_all_def)
  show ?thesis
    using level_images_flag_then_level [OF parse_page_full]
    by (simp add: parse_page_full imgs truthy_src_def)
qed

text \<open>
  C8 as stated fails: the first level image of \<open>page_absolute_flag\<close> has an absolute
  URL, and the flag URL recorded is not that URL but the base origin followed by it.
\<close>

theorem absolute_flag_url_counterexample:
  "truthy_src (hd (find_all page_absolute_flag (has_class ''img'' ''stats_profile_level_image'')))
     = Some ''https://cdn.example/ua.svg'' \<and>
   map_option flag_url (parse_soup page_absolute_flag)
     = Some (Some ''https://faceitanalyser.com/https://cdn.example/ua.svg'')"
  by (simp add: page_absolute_flag_def parse_soup_def find_first_def find_all_def
      get_text_def empty_stats_def parse_view_stats_div_def truthy_src_def base_origin_def)

section \<open>Properties of the stat table\<close>

lemma py_float_examples:
  "py_float ''49'' = Some (Finite 6896136929411072 (- 47))"
  "py_float ''50'' = Some (Finite 7036874417766400 (- 47))"
  "py_float ''0.99'' = Some (Finite 8917127262193582 (- 53))"
  "py_float ''1.00'' = Some (Finite 4503599627370496 (- 52))"
  "py_float ''n/a'' = None"
  by code_simp+

lemma draw_items_length:
  "length (draw_items x y tw f xs) = 2 * length xs"
  by (induction x y tw f xs rule: draw_items.induct) (simp_all add: Let_def)

lemma draw_items_nth:
  "i < length its \<Longrightarrow>
     draw_items x y tw f (enumerate k its) ! (2 * i) =
       DrawText (x + 20, y + 95 + int (k + i) * 25) (item_title (its ! i)) (200, 200, 200) f None \<and>
     draw_items x y tw f (enumerate k its) ! (2 * i + 1) =
       DrawText (x + tw - 20, y + 95 + int (k + i) * 25) (item_value (its ! i)) (255, 255, 255) f
         (Some ''ra'')"
proof (induction its arbitrary: i k)
  case Nil
  then show ?case by simp
next
  case (Cons a its)
  show ?case
  proof (cases i)
    case 0
    then show ?thesis by (simp add: Let_def)
  next
    case (Suc j)
    with Cons.prems have "j < length its" by simp
    from Cons.IH [OF this, of "Suc k"] Suc show ?thesis
      by (simp add: Let_def)
  qed
qed

lemma draw_stat_table_Inr:
  "draw_stat_table ev x y sb tw th tf stf svf = Inr ops \<longleftrightarrow>
     (\<exists>t fill mv. title sb = Some t \<and> fill_color sb = Inr fill \<and> main_value sb = Some mv \<and>
        ops = [Rectangle [x, y, x + tw, y + th] (45, 45, 45) (80, 80, 80) 2,
               DrawText (x + (tw - text_width ev tf t) div 2, y + 15) t (255, 255, 255) tf None,
               DrawText (x + (tw - text_width ev stf mv) div 2, y + 50) mv fill stf None,
               Line [x + 20, y + 85, x + tw - 20, y + 85] (100, 100, 100) 1]
              @ draw_items x y tw svf (enumerate 0 (items sb)))"
  by (auto simp add: draw_stat_table_def subscript_def split: option.splits sum.splits)

lemma fill_color_Inr:
  assumes "title sb = Some t" "main_value sb = Some mv"
  shows "fill_color sb = Inr fill \<longleftrightarrow>
     (t \<in> {''Avg. KDR'', ''FA Rating'', ''Winrate''} \<longrightarrow> py_float mv \<noteq> None) \<and>
     fill = (if (t \<in> {''Avg. KDR'', ''FA Rating''} \<and> (\<exists>f. py_float mv = Some f \<and> float_lt f 1)) \<or>
                (t = ''Winrate'' \<and> (\<exists>f. py_float mv = Some f \<and> float_lt f 50))
             then warning_tint else positive_tint)"
  using assms
  by (auto simp add: fill_color_def main_value_below_def subscript_def warning_tint_def positive_tint_def
       split: option.splits sum.splits)

text \<open>
  C2. Whenever \<open>draw_stat_table\<close> renders a block (returns without raising), the third
  thing it draws is the main value, and its fill is the warning tint exactly when the
  title is \<open>Avg. KDR\<close> or \<open>FA Rating\<close> and \<open>float(main_value)\<close> is below 1, or the title
  is \<open>Winrate\<close> and \<open>float(main_value)\<close> is below 50; otherwise it is the positive tint.
  In particular \<open>Winrate\<close> with \<open>49\<close> gets the warning tint and with \<open>50\<close> the positive
  one, \<open>FA Rating\<close> with \<open>0.99\<close> the warning tint and with \<open>1.00\<close> the positive one.
\<close>

theorem main_value_tint:
  "(draw_stat_table ev x y stat_data tw th tf stf svf = Inr ops \<longrightarrow>
      (\<exists>t mv. title stat_data = Some t \<and> main_value stat_data = Some mv \<and>
         ops ! 2 =
           DrawText (x + (tw - text_width ev stf mv) div 2, y + 50) mv
             (if (t \<in> {''Avg. KDR'', ''FA Rating''} \<and> (\<exists>f. py_float mv = Some f \<and> float_lt f 1)) \<or>
                 (t = ''Winrate'' \<and> (\<exists>f. py_float mv = Some f \<and> float_lt f 50))
              then warning_tint else positive_tint)
             stf None)) \<and>
   fill_color \<lparr>title = Some ''Winrate'', main_value = Some ''49'', items = its\<rparr> = Inr warning_tint \<and>
   fill_color \<lparr>title = Some ''Winrate'', main_value = Some ''50'', items = its\<rparr> = Inr positive_tint \<and>
   fill_color \<lparr>title = Some ''FA Rating'', main_value = Some ''0.99'', items = its\<rparr> = Inr warning_tint \<and>
   fill_color \<lparr>title = Some ''FA Rating'', main_value = Some ''1.00'', items = its\<rparr> = Inr positive_tint"
proof -
  have general: "draw_stat_table ev x y stat_data tw th tf stf svf = Inr ops \<longrightarrow>
      (\<exists>t mv. title stat_data = Some t \<and> main_value stat_data = Some mv \<and>
         ops ! 2 =
           DrawText (x + (tw - text_width ev stf mv) div 2, y + 50) mv
             (if (t \<in> {''Avg. KDR'', ''FA Rating''} \<and> (\<exists>f. py_float mv = Some f \<and> float_lt f 1)) \<or>
                 (t = ''Winrate'' \<and> (\<exists>f. py_float mv = Some f \<and> float_lt f 50))
              then warning_tint else positive_tint)
             stf None)"
  proof
    assume "draw_stat_table ev x y stat_data tw th tf stf svf = Inr ops"
    then obtain t fill mv where h: "title stat_data = Some t" "fill_color stat_data = Inr fill"
      "main_value stat_data = Some mv"
      and op: "ops ! 2 = DrawText (x + (tw - text_width ev stf mv) div 2, y + 50) mv fill stf None"
      unfolding draw_stat_table_Inr by (auto simp: numeral_2_eq_2)
    from h(2) fill_color_Inr [OF h(1) h(3)]
    have "fill = (if (t \<in> {''Avg. KDR'', ''FA Rating''} \<and> (\<exists>f. py_float mv = Some f \<and> float_lt f 1)) \<or>
                (t = ''Winrate'' \<and> (\<exists>f. py_float mv = Some f \<and> float_lt f 50))
             then warning_tint else positive_tint)" by blast
    with h op show "\<exists>t mv. title stat_data = Some t \<and> main_value stat_data = Some mv \<and>
         ops ! 2 =
           DrawText (x + (tw - text_width ev stf mv) div 2, y + 50) mv
             (if (t \<in> {''Avg. KDR'', ''FA Rating''} \<and> (\<exists>f. py_float mv = Some f \<and> float_lt f 1)) \<or>
                 (t = ''Winrate'' \<and> (\<exists>f. py_float mv = Some f \<and> float_lt f 50))
              then warning_tint else positive_tint)
             stf None" by blast
  qed
  have examples:
    "fill_color \<lparr>title = Some ''Winrate'', main_value = Some ''49'', items = its\<rparr> = Inr warning_tint"
    "fill_color \<lparr>title = Some ''Winrate'', main_value = Some ''50'', items = its\<rparr> = Inr positive_tint"
    "fill_color \<lparr>title = Some ''FA Rating'', main_value = Some ''0.99'', items = its\<rparr> = Inr warning_tint"
    "fill_color \<lparr>title = Some ''FA Rating'', main_value = Some ''1.00'', items = its\<rparr> = Inr positive_tint"
    by (simp_all add: fill_color_def main_value_below_def subscript_def py_float_examples)
  from general examples show ?thesis by blast
qed

theorem main_value_tint_witness:
  "\<exists>ops. draw_stat_table env_offline 50 315 winrate_49 350 180
            (Font montserrat_bold 28) (Font montserrat_bold 24) (Font montserrat_medium 22) = Inr ops \<and>
         ops ! 2 = DrawText (211, 365) ''49'' warning_tint (Font montserrat_bold 24) None"
proof -
  have fc: "fill_color winrate_49 = Inr warning_tint"
    by (simp add: winrate_49_def fill_color_def main_value_below_def subscript_def py_float_examples)
  then obtain ops where ops: "draw_stat_table env_offline 50 315 winrate_49 350 180
            (Font montserrat_bold 28) (Font montserrat_bold 24) (Font montserrat_medium 22) = Inr ops"
    by (simp add: draw_stat_table_def subscript_def winrate_49_def)
  from main_value_tint [of env_offline 50 315 winrate_49 350 180 "Font montserrat_bold 28"
      "Font montserrat_bold 24" "Font montserrat_medium 22" ops] ops
  have "ops ! 2 = DrawText (211, 365) ''49'' warning_tint (Font montserrat_bold 24) None"
    by (simp add: winrate_49_def py_float_examples env_offline_def)
  with ops show ?thesis by blast
qed

text \<open>
  C9. For a block whose title is none of \<open>Avg. KDR\<close>, \<open>FA Rating\<close> and \<open>Winrate\<close>, the
  main value is never parsed as a number: whatever the string is, no error is raised,
  the positive tint is selected and the table is drawn. A \<open>ValueError\<close> of the number
  parser leaves \<open>draw_stat_table\<close> only for a block with one of the three titles (and a
  main value that is not a number).
\<close>

theorem other_titles_never_parse:
  "(title stat_data = Some t \<and> t \<notin> {''Avg. KDR'', ''FA Rating'', ''Winrate''} \<and>
    main_value stat_data = Some mv \<longrightarrow>
      fill_color stat_data = Inr positive_tint \<and>
      (\<exists>ops. draw_stat_table ev x y stat_data tw th tf stf svf = Inr ops)) \<and>
   (draw_stat_table ev x y stat_data tw th tf stf svf = Inl ValueError \<longrightarrow>
      (\<exists>t mv. title stat_data = Some t \<and> t \<in> {''Avg. KDR'', ''FA Rating'', ''Winrate''} \<and>
         main_value stat_data = Some mv \<and> py_float mv = None))"
  by (auto simp add: draw_stat_table_def fill_color_def main_value_below_def subscript_def
      split: option.splits sum.splits if_splits)

theorem other_titles_never_parse_witness:
  "py_float ''n/a'' = None \<and>
   fill_color matches_na = Inr positive_tint \<and>
   (\<exists>ops. draw_stat_table env_offline 50 315 matches_na 350 180
            (Font montserrat_bold 28) (Font montserrat_bold 24) (Font montserrat_medium 22) = Inr ops) \<and>
   draw_stat_table env_offline 50 315 winrate_na 350 180
            (Font montserrat_bold 28) (Font montserrat_bold 24) (Font montserrat_medium 22) = Inl ValueError"
proof -
  have a: "title matches_na = Some ''Matches'' \<and> ''Matches'' \<notin> {''Avg. KDR'', ''FA Rating'', ''Winrate''} \<and>
    main_value matches_na = Some ''n/a''"
    by (simp add: matches_na_def)
  have b: "draw_stat_table env_offline 50 315 winrate_na 350 180
            (Font montserrat_bold 28) (Font montserrat_bold 24) (Font montserrat_medium 22) = Inl ValueError"
    by (simp add: draw_stat_table_def fill_color_def main_value_below_def subscript_def
        winrate_na_def py_float_examples)
  from other_titles_never_parse [of matches_na "''Matches''" "''n/a''" env_offline 50 315 350 180
      "Font montserrat_bold 28" "Font montserrat_bold 24" "Font montserrat_medium 22"] a
  have c: "fill_color matches_na = Inr positive_tint \<and>
      (\<exists>ops. draw_stat_table env_offline 50 315 matches_na 350 180
            (Font montserrat_bold 28) (Font montserrat_bold 24) (Font montserrat_medium 22) = Inr ops)"
    by blast
  from other_titles_never_parse [of winrate_na _ _ env_offline 50 315 350 180
      "Font montserrat_bold 28" "Font montserrat_bold 24" "Font montserrat_medium 22"] b
  have "\<exists>t mv. title winrate_na = Some t \<and> main_value winrate_na = Some mv \<and> py_float mv = None"
    by blast
  then have "py_float ''n/a'' = None"
    by (simp add: winrate_na_def)
  with b c show ?thesis by blast
qed

text \<open>
  C7. The items of a parsed block are the item-title spans and the item-value spans
  paired by position, as many as the shorter of the two lists has; and a table that
  \<open>draw_stat_table\<close> renders for the block has, after its four header drawings, exactly
  that many rows: row \<open>i\<close> is the title of pair \<open>i\<close> on the left and its value on the
  right, 25 pixels below the row before.
\<close>

theorem item_rows_truncate_to_shorter:
  "items (parse_block block) =
     map (\<lambda>(t, v). \<lparr>item_title = get_text t, item_value = get_text v\<rparr>)
       (zip (item_title_spans block) (item_value_spans block)) \<and>
   length (items (parse_block block)) =
     min (length (item_title_spans block)) (length (item_value_spans block)) \<and>
   (draw_stat_table ev x y (parse_block block) tw th tf stf svf = Inr ops \<longrightarrow>
      length ops = 4 + 2 * min (length (item_title_spans block)) (length (item_value_spans block)) \<and>
      (\<forall>i < min (length (item_title_spans block)) (length (item_value_spans block)).
         ops ! (4 + 2 * i) =
           DrawText (x + 20, y + 95 + int i * 25) (get_text (item_title_spans block ! i))
             (200, 200, 200) svf None \<and>
         ops ! (4 + 2 * i + 1) =
           DrawText (x + tw - 20, y + 95 + int i * 25) (get_text (item_value_spans block ! i))
             (255, 255, 255) svf (Some ''ra'')))"
proof -
  let ?n = "min (length (item_title_spans block)) (length (item_value_spans block))"
  have its: "items (parse_block block) =
     map (\<lambda>(t, v). \<lparr>item_title = get_text t, item_value = get_text v\<rparr>)
       (zip (item_title_spans block) (item_value_spans block))"
    by (simp add: parse_block_def Let_def)
  then have len: "length (items (parse_block block)) = ?n"
    by simp
  have rows: "length ops = 4 + 2 * ?n \<and>
      (\<forall>i < ?n.
         ops ! (4 + 2 * i) =
           DrawText (x + 20, y + 95 + int i * 25) (get_text (item_title_spans block ! i))
             (200, 200, 200) svf None \<and>
         ops ! (4 + 2 * i + 1) =
           DrawText (x + tw - 20, y + 95 + int i * 25) (get_text (item_value_spans block ! i))
             (255, 255, 255) svf (Some ''ra''))"
    if "draw_stat_table ev x y (parse_block block) tw th tf stf svf = Inr ops"
  proof -
    from that obtain hd4 where ops: "ops = hd4 @ draw_items x y tw svf (enumerate 0 (items (parse_block block)))"
      and l4: "length hd4 = 4"
      unfolding draw_stat_table_Inr by auto
    have "length ops = 4 + 2 * ?n"
      by (simp add: ops l4 draw_items_length len)
    moreover have "ops ! (4 + 2 * i) =
           DrawText (x + 20, y + 95 + int i * 25) (get_text (item_title_spans block ! i))
             (200, 200, 200) svf None \<and>
         ops ! (4 + 2 * i + 1) =
           DrawText (x + tw - 20, y + 95 + int i * 25) (get_text (item_value_spans block ! i))
             (255, 255, 255) svf (Some ''ra'')" if "i < ?n" for i
    proof -
      from that len have i: "i < length (items (parse_block block))" by simp
      have nth: "items (parse_block block) ! i =
         \<lparr>item_title = get_text (item_title_spans block ! i),
          item_value = get_text (item_value_spans block ! i)\<rparr>"
        using that by (simp add: its)
      have "ops ! (4 + 2 * i) = draw_items x y tw svf (enumerate 0 (items (parse_block block))) ! (2 * i)"
        "ops ! (4 + 2 * i + 1) = draw_items x y tw svf (enumerate 0 (items (parse_block block))) ! (2 * i + 1)"
        using l4 by (simp_all add: ops nth_append)
      with draw_items_nth [OF i, of x y tw svf 0] show ?thesis
        by (simp add: nth)
    qed
    ultimately show ?thesis by blast
  qed
  from its len rows show ?thesis by blast
qed

theorem item_rows_truncate_to_shorter_witness:
  "length (item_title_spans stats_block_example) = 3 \<and>
   length (item_value_spans stats_block_example) = 2 \<and>
   length (items (parse_block stats_block_example)) = 2 \<and>
   (\<exists>ops. draw_stat_table env_offline 50 315 (parse_block stats_block_example) 350 180
            (Font montserrat_bold 28) (Font montserrat_bold 24) (Font montserrat_medium 22) = Inr ops \<and>
          length ops = 8 \<and>
          ops ! 6 = DrawText (70, 435) ''Losses'' (200, 200, 200) (Font montserrat_medium 22) None \<and>
          ops ! 7 = DrawText (380, 435) ''510'' (255, 255, 255) (Font montserrat_medium 22) (Some ''ra''))"
proof -
  have t: "item_title_spans stats_block_example =
      [Tag ''span'' [''stats_totals_block_item_title''] [] [NavigableString ''Wins''],
       Tag ''span'' [''stats_totals_block_item_title''] [] [NavigableString ''Losses''],
       Tag ''span'' [''stats_totals_block_item_title''] [] [NavigableString ''Streak'']]"
    and v: "item_value_spans stats_block_example =
      [Tag ''span'' [''stats_totals_block_item_value''] [] [NavigableString ''490''],
       Tag ''span'' [''stats_totals_block_item_value''] [] [NavigableString ''510'']]"
    by (simp_all add: stats_block_example_def find_all_def)
  have pb: "parse_block stats_block_example =
     \<lparr>title = Some ''Winrate'', main_value = Some ''49'',
              items = [\<lparr>item_title = ''Wins'', item_value = ''490''\<rparr>,
                       \<lparr>item_title = ''Losses'', item_value = ''510''\<rparr>]\<rparr>"
    by code_simp
  have "fill_color (parse_block stats_block_example) = Inr warning_tint"
    by (simp add: pb fill_color_def main_value_below_def subscript_def py_float_examples)
  then obtain ops where ops: "draw_stat_table env_offline 50 315 (parse_block stats_block_example) 350 180
            (Font montserrat_bold 28) (Font montserrat_bold 24) (Font montserrat_medium 22) = Inr ops"
    by (simp add: draw_stat_table_def subscript_def pb)
  note inst = item_rows_truncate_to_shorter [of stats_block_example env_offline 50 315 350 180
      "Font montserrat_bold 28" "Font montserrat_bold 24" "Font montserrat_medium 22" ops]
  from inst have l: "length (items (parse_block stats_block_example)) = 2"
    by (simp add: t v)
  from inst ops have lo: "length ops = 8"
    by (simp add: t v)
  from inst ops have "\<forall>i<2. ops ! (4 + 2 * i) =
           DrawText (50 + 20, 315 + 95 + int i * 25) (get_text (item_title_spans stats_block_example ! i))
             (200, 200, 200) (Font montserrat_medium 22) None \<and>
         ops ! (4 + 2 * i + 1) =
           DrawText (50 + 350 - 20, 315 + 95 + int i * 25) (get_text (item_value_spans stats_block_example ! i))
             (255, 255, 255) (Font montserrat_medium 22) (Some ''ra'')"
    by (simp add: t v)
  then have "ops ! (4 + 2 * 1) =
           DrawText (50 + 20, 315 + 95 + int 1 * 25) (get_text (item_title_spans stats_block_example ! 1))
             (200, 200, 200) (Font montserrat_medium 22) None \<and>
         ops ! (4 + 2 * 1 + 1) =
           DrawText (50 + 350 - 20, 315 + 95 + int 1 * 25) (get_text (item_value_spans stats_block_example ! 1))
             (255, 255, 255) (Font montserrat_medium 22) (Some ''ra'')"
    by (metis one_less_numeral_iff semiring_norm(76))
  then have "ops ! 6 = DrawText (70, 435) ''Losses'' (200, 200, 200) (Font montserrat_medium 22) None \<and>
          ops ! 7 = DrawText (380, 435) ''510'' (255, 255, 255) (Font montserrat_medium 22) (Some ''ra'')"
    by (simp add: t v get_text_def strip_def py_isspace_def py_isspace2_def py_isspace3_def)
  with l lo ops t v show ?thesis by auto
qed

section \<open>Properties of the page fetcher and of the card\<close>

lemma requests_get_world:
  "snd (requests_get ev w url) = w\<lparr>requests := requests w @ [url]\<rparr>"
  by (simp add: requests_get_def)

lemma download_page_world:
  "snd (download_page ev w url) = w\<lparr>requests := requests w @ [url]\<rparr>"
  by (simp add: download_page_def requests_get_def split: prod.splits)

lemma download_page_failure:
  assumes "http_get ev (length (requests w)) url = ConnectionFailure \<or>
           http_get ev (length (requests w)) url = Timeout \<or>
           (\<exists>r. http_get ev (length (requests w)) url = Response r \<and>
                400 \<le> status_code r \<and> status_code r < 600)"
  shows "fst (download_page ev w url) = Inl TypeError"
  using assms
  by (auto simp add: download_page_def requests_get_def raise_for_status_def)

lemma download_page_success:
  assumes "http_get ev (length (requests w)) url = Response r"
    and "\<not> (400 \<le> status_code r \<and> status_code r < 600)"
  shows "fst (download_page ev w url) = Inr (response_text r)"
  using assms
  by (auto simp add: download_page_def requests_get_def raise_for_status_def)

text \<open>
  C4. A call of \<open>download_page\<close> makes one request (\<open>download_page_world\<close>), and it
  fails whenever that request fails (\<open>download_page_failure\<close>); but the exception is not
  an error of the fetch: the handler raises a string, so what leaves the function is a
  \<open>TypeError\<close>. Here the request of the page of \<open>s1mple\<close> finds no connection.
\<close>

theorem download_page_raises_TypeError:
  "download_page env_offline world0 ''https://faceitanalyser.com/stats/s1mple/cs2'' =
     (Inl TypeError, world0\<lparr>requests := [''https://faceitanalyser.com/stats/s1mple/cs2'']\<rparr>)"
  by (simp add: download_page_def requests_get_def env_offline_def world0_def)

lemma load_image_safe_world:
  "snd (load_image_safe ev w url sz) = w\<lparr>requests := requests w @ [url]\<rparr>"
  by (simp add: load_image_safe_def requests_get_def split: prod.splits)

lemma load_image_safe_error:
  "fst (load_image_safe ev w url sz) = Inl e \<Longrightarrow> e = ImageLoadError"
  by (auto simp add: load_image_safe_def requests_get_def Let_def
      split: prod.splits sum.splits http_outcome.splits if_splits)

lemma load_image_safe_unreachable:
  assumes "http_get ev (length (requests w)) url = ConnectionFailure \<or>
           http_get ev (length (requests w)) url = Timeout"
  shows "fst (load_image_safe ev w url sz) = Inl ImageLoadError"
  using assms by (auto simp add: load_image_safe_def requests_get_def)

lemma load_fonts_present:
  assumes "montserrat_bold \<in> set (font_files ev)" "montserrat_medium \<in> set (font_files ev)"
  shows "load_fonts ev = Inr \<lparr>name_font = Font montserrat_bold 40, elo_font = Font montserrat_medium 36,
     title_font = Font montserrat_bold 28, stat_title_font = Font montserrat_bold 24,
     stat_value_font = Font montserrat_medium 22, section_font = Font montserrat_bold 32\<rparr>"
  using assms by (simp add: load_fonts_def truetype_def)

lemma missing_avatar_url_general:
  assumes "avatar_url data = None"
    and "montserrat_bold \<in> set (font_files ev)" "montserrat_medium \<in> set (font_files ev)"
  shows "generate_player_card ev w data = (Inl (CardError (KeyError ''avatar_url'')), w)"
  using assms
  by (simp add: generate_player_card_def card_body_def load_fonts_present paste_avatar_def subscript_def)

text \<open>
  C3. The card is not rendered for a record without \<open>avatar_url\<close>, a key that the
  extraction leaves out when the page has no avatar image: the subscript raises
  \<open>KeyError\<close> inside the \<open>try\<close> that catches only \<open>ImageLoadError\<close>, and the renderer
  ends with its exception. The record is the one that \<open>parse_faceitanalyser\<close> extracts
  from the tree \<open>page_no_avatar\<close> (\<open>parse_soup\<close>, \<open>parse_faceitanalyser_soup\<close>). When
  the three URLs are there and cannot be reached the placeholders are pasted
  (\<open>unreachable_images_give_placeholders\<close>).
\<close>

theorem missing_avatar_url_aborts_card:
  "map_option (\<lambda>data. fst (generate_player_card env_offline world0 data))
     (parse_soup page_no_avatar) = Some (Inl (CardError (KeyError ''avatar_url'')))"
  by (simp add: parse_page_no_avatar missing_avatar_url_general env_offline_def)

lemma unreachable_images_give_placeholders:
  assumes urls: "avatar_url data = Some a" "flag_url data = Some f" "level_url data = Some l"
    and unreachable: "\<And>n url. http_get ev n url = ConnectionFailure \<or> http_get ev n url = Timeout"
    and fonts: "montserrat_bold \<in> set (font_files ev)" "montserrat_medium \<in> set (font_files ev)"
    and texts: "name data = Some nm" "elo data = Some el"
    and views: "view1_stats data = Some v1" "view2_stats data = Some v2"
    and t1: "draw_tables ev 315 fs (enumerate 0 v1) = Inr tables1"
    and t2: "draw_tables ev 590 fs (enumerate 0 v2) = Inr tables2"
    and fs: "load_fonts ev = Inr fs"
  shows "\<exists>c w'. generate_player_card ev w data = (Inr c, w') \<and> canvas_size c = (1600, 820) \<and>
     take 3 (canvas_ops c) =
       [Paste (NewRGBA (150, 150) (100, 100, 100, 255)) (50, 50),
        Paste (NewRGBA (60, 45) (200, 100, 100, 255)) (220, 55),
        Paste (NewRGBA (45, 45) (100, 200, 100, 255)) (220, 110)] \<and>
     requests w' = requests w @ [a, f, l]"
proof -
  have l: "load_image_safe ev w' url sz = (Inl ImageLoadError, w'\<lparr>requests := requests w' @ [url]\<rparr>)"
    for w' url sz
    using load_image_safe_unreachable [OF unreachable, of w' url sz] load_image_safe_world [of ev w' url sz]
    by (metis prod.collapse)
  show ?thesis
    by (simp add: generate_player_card_def card_body_def fs paste_avatar_def paste_flag_def
        paste_level_def subscript_def urls l texts views t1 t2 create_placeholder_def)
qed

section \<open>Properties of the registration and of the lookup\<close>

lemma get_user_stat_world:
  "snd (get_user_stat ev w nick) =
     w\<lparr>requests := requests w @ [''https://faceitanalyser.com/stats/'' @ nick @ ''/cs2'']\<rparr>"
proof -
  obtain r w1 where d: "download_page ev w (''https://faceitanalyser.com/stats/'' @ nick @ ''/cs2'') = (r, w1)"
    by (cases "download_page ev w (''https://faceitanalyser.com/stats/'' @ nick @ ''/cs2'')")
  with download_page_world [of ev w "''https://faceitanalyser.com/stats/'' @ nick @ ''/cs2''"]
  have "w1 = w\<lparr>requests := requests w @ [''https://faceitanalyser.com/stats/'' @ nick @ ''/cs2'']\<rparr>"
    by simp
  with d show ?thesis
    by (cases r) (simp_all add: get_user_stat_def get_html_page_by_nickname_def)
qed

lemma sql_select_None:
  "sql_select rows tid = None \<longleftrightarrow> tid \<notin> set (map row_telegram_id rows)"
  by (auto simp add: sql_select_def find_None_iff)

lemma sql_update_keys:
  "map row_telegram_id (sql_update rows tid nick now) = map row_telegram_id rows"
  by (induction rows) (simp_all add: sql_update_def)

lemma sql_update_no_row:
  "tid \<notin> set (map row_telegram_id rows) \<Longrightarrow>
     filter (\<lambda>r. row_telegram_id r = tid) (sql_update rows tid nick now) = []"
  by (induction rows) (auto simp add: sql_update_def)

lemma sql_update_one_row:
  "distinct (map row_telegram_id rows) \<Longrightarrow> tid \<in> set (map row_telegram_id rows) \<Longrightarrow>
     filter (\<lambda>r. row_telegram_id r = tid) (sql_update rows tid nick now) =
       [\<lparr>row_telegram_id = tid, row_faceit_nickname = nick, row_registered_at = now\<rparr>]"
proof (induction rows)
  case Nil
  then show ?case by simp
next
  case (Cons r rows)
  show ?case
  proof (cases "row_telegram_id r = tid")
    case True
    with Cons.prems have "tid \<notin> set (map row_telegram_id rows)" by auto
    then have none: "filter (\<lambda>r. row_telegram_id r = tid) (sql_update rows tid nick now) = []"
      by (rule sql_update_no_row)
    have "sql_update (r # rows) tid nick now =
        r\<lparr>row_faceit_nickname := nick, row_registered_at := now\<rparr> # sql_update rows tid nick now"
      using True by (simp add: sql_update_def)
    moreover have "r\<lparr>row_faceit_nickname := nick, row_registered_at := now\<rparr> =
        \<lparr>row_telegram_id = tid, row_faceit_nickname = nick, row_registered_at = now\<rparr>"
      using True by (cases r) simp
    ultimately show ?thesis
      using none by simp
  next
    case False
    have "sql_update (r # rows) tid nick now = r # sql_update rows tid nick now"
      using False by (simp add: sql_update_def)
    with False Cons show ?thesis
      by simp
  qed
qed

lemma upsert_body_result:
  assumes "upsert_body ev conn rows tid nick = Inr rows'"
    and "distinct (map row_telegram_id rows)"
  shows "distinct (map row_telegram_id rows') \<and>
         filter (\<lambda>r. row_telegram_id r = tid) rows' =
           [\<lparr>row_telegram_id = tid, row_faceit_nickname = nick,
             row_registered_at = current_timestamp ev conn\<rparr>]"
proof (cases "sql_select rows tid")
  case None
  then have notin: "tid \<notin> set (map row_telegram_id rows)"
    by (simp add: sql_select_None)
  with None assms(1) have "rows' = rows @ [\<lparr>row_telegram_id = tid, row_faceit_nickname = nick,
             row_registered_at = current_timestamp ev conn\<rparr>]"
    by (auto simp add: upsert_body_def sql_insert_def split: sum.splits if_splits)
  with notin assms(2) show ?thesis
    by (auto simp add: filter_empty_conv)
next
  case (Some existing)
  then have mem: "tid \<in> set (map row_telegram_id rows)"
    using sql_select_None [of rows tid] by auto
  from Some assms(1) have "rows' = sql_update rows tid nick (current_timestamp ev conn)"
    by (auto simp add: upsert_body_def split: sum.splits)
  with mem assms(2) show ?thesis
    by (simp add: sql_update_keys sql_update_one_row)
qed

lemma connect_eq:
  "connect ev w =
     (if sql_fails ev (connects w) Connect then (Inl SqliteError, w\<lparr>connects := Suc (connects w)\<rparr>)
      else (Inr (connects w),
            w\<lparr>connects := Suc (connects w), open_conns := Suc (open_conns w)\<rparr>))"
  by (simp add: connect_def Let_def)

lemma upsert_body_error:
  "upsert_body ev conn rows tid nick = Inl e \<Longrightarrow> e = SqliteError"
  unfolding upsert_body_def sql_step_def sql_insert_def
  by (simp split: if_splits option.splits sum.splits)

text \<open>\<open>register_user\<close> once the nickname has resolved.\<close>

lemma register_user_resolved:
  assumes "get_user_stat ev w nick = (Inr (Some stats), w1)"
  shows "register_user ev w tid nick =
     (if sql_fails ev (connects w1) Connect then (Inr None, w1\<lparr>connects := Suc (connects w1)\<rparr>)
      else (case upsert_body ev (connects w1) (users w1) tid nick of
              Inl e \<Rightarrow> (Inr None, w1\<lparr>connects := Suc (connects w1)\<rparr>)
            | Inr rows' \<Rightarrow>
                (Inr (Some stats), w1\<lparr>connects := Suc (connects w1), users := rows'\<rparr>)))"
proof (cases "sql_fails ev (connects w1) Connect")
  case True
  then show ?thesis
    by (simp add: register_user_def assms connect_eq except_sqlite_def)
next
  case False
  show ?thesis
  proof (cases "upsert_body ev (connects w1) (users w1) tid nick")
    case (Inl e)
    with upsert_body_error [OF Inl] False show ?thesis
      by (simp add: register_user_def assms connect_eq except_sqlite_def close_def)
  next
    case (Inr rows')
    with False show ?thesis
      by (simp add: register_user_def assms connect_eq close_def)
  qed
qed

lemma register_user_unresolved:
  assumes "\<forall>stats. fst (get_user_stat ev w nick) \<noteq> Inr (Some stats)"
  shows "register_user ev w tid nick = get_user_stat ev w nick"
proof (cases "get_user_stat ev w nick")
  case (Pair r w1)
  show ?thesis
  proof (cases r)
    case (Inl e)
    with Pair show ?thesis by (simp add: register_user_def)
  next
    case (Inr v)
    with assms Pair have "v = None" by (cases v) simp_all
    with Inr Pair show ?thesis by (simp add: register_user_def)
  qed
qed

lemma register_user_success:
  assumes "register_user ev w tid nick = (Inr (Some stats), w')"
  shows "\<exists>rows'. upsert_body ev (connects w) (users w) tid nick = Inr rows' \<and> users w' = rows' \<and>
           connects w' = Suc (connects w) \<and> open_conns w' = open_conns w \<and>
           user_registration_data w' = user_registration_data w \<and>
           fst (get_user_stat ev w nick) = Inr (Some stats)"
proof (cases "\<forall>s. fst (get_user_stat ev w nick) \<noteq> Inr (Some s)")
  case True
  from register_user_unresolved [OF True, of tid] assms True show ?thesis
    by (metis fst_conv)
next
  case False
  then obtain s where s: "fst (get_user_stat ev w nick) = Inr (Some s)"
    by blast
  define w1 where "w1 = w\<lparr>requests := requests w @ [''https://faceitanalyser.com/stats/'' @ nick @ ''/cs2'']\<rparr>"
  have g: "get_user_stat ev w nick = (Inr (Some s), w1)"
    using s get_user_stat_world [of ev w nick] by (simp add: prod_eq_iff w1_def)
  have f: "connects w1 = connects w" "users w1 = users w" "open_conns w1 = open_conns w"
    "user_registration_data w1 = user_registration_data w"
    by (simp_all add: w1_def)
  from assms show ?thesis
    unfolding register_user_resolved [OF g]
    by (simp add: f s split: if_splits sum.splits) (auto simp add: f)
qed

lemma register_user_frame:
  "user_registration_data (snd (register_user ev w tid nick)) = user_registration_data w \<and>
   open_conns (snd (register_user ev w tid nick)) = open_conns w \<and>
   outbox (snd (register_user ev w tid nick)) = outbox w"
proof (cases "\<forall>s. fst (get_user_stat ev w nick) \<noteq> Inr (Some s)")
  case True
  from register_user_unresolved [OF True, of tid] show ?thesis
    by (simp add: get_user_stat_world)
next
  case False
  then obtain s where s: "fst (get_user_stat ev w nick) = Inr (Some s)"
    by blast
  define w1 where "w1 = w\<lparr>requests := requests w @ [''https://faceitanalyser.com/stats/'' @ nick @ ''/cs2'']\<rparr>"
  have g: "get_user_stat ev w nick = (Inr (Some s), w1)"
    using s get_user_stat_world [of ev w nick] by (simp add: prod_eq_iff w1_def)
  have f: "open_conns w1 = open_conns w" "user_registration_data w1 = user_registration_data w"
    "outbox w1 = outbox w"
    by (simp_all add: w1_def)
  show ?thesis
    unfolding register_user_resolved [OF g]
    by (simp add: f split: sum.splits)
qed

lemma get_user_stat_fetch_failure:
  assumes "http_get ev (length (requests w)) (''https://faceitanalyser.com/stats/'' @ nick @ ''/cs2'')
             = ConnectionFailure \<or>
           http_get ev (length (requests w)) (''https://faceitanalyser.com/stats/'' @ nick @ ''/cs2'')
             = Timeout \<or>
           (\<exists>r. http_get ev (length (requests w))
                  (''https://faceitanalyser.com/stats/'' @ nick @ ''/cs2'') = Response r \<and>
                400 \<le> status_code r \<and> status_code r < 600)"
  shows "fst (get_user_stat ev w nick) = Inl TypeError"
proof -
  from download_page_failure [OF assms]
  have "fst (download_page ev w (''https://faceitanalyser.com/stats/'' @ nick @ ''/cs2'')) =
      Inl TypeError" .
  then show ?thesis
    by (cases "download_page ev w (''https://faceitanalyser.com/stats/'' @ nick @ ''/cs2'')")
       (simp add: get_user_stat_def get_html_page_by_nickname_def)
qed

text \<open>
  C5, as the code has it. \<open>register_user\<close> leaves the table as it is unless the nickname
  resolves to a record. When the page is fetched and the extraction returns no record,
  it returns \<open>None\<close>, the not-found outcome. When \<open>get_user_stat\<close> raises, as it does when
  the request fails, times out or is answered with a status from 400 to 599, the
  exception leaves \<open>register_user\<close>: nothing is written, and nothing is reported either.
  When two registrations of one user id succeed one after the other, on a table whose
  \<open>telegram_id\<close> is a key (the schema's primary key), the table has exactly one row for
  that id, with the nickname of the second call and the timestamp of its connection.
\<close>

theorem register_user_writes_only_resolved:
  "((\<forall>stats. fst (get_user_stat ev w nick) \<noteq> Inr (Some stats)) \<longrightarrow>
      users (snd (register_user ev w tid nick)) = users w) \<and>
   (fst (get_user_stat ev w nick) = Inr None \<longrightarrow> fst (register_user ev w tid nick) = Inr None) \<and>
   (\<forall>e. fst (get_user_stat ev w nick) = Inl e \<longrightarrow> fst (register_user ev w tid nick) = Inl e) \<and>
   (http_get ev (length (requests w)) (''https://faceitanalyser.com/stats/'' @ nick @ ''/cs2'')
      = ConnectionFailure \<or>
    http_get ev (length (requests w)) (''https://faceitanalyser.com/stats/'' @ nick @ ''/cs2'')
      = Timeout \<or>
    (\<exists>r. http_get ev (length (requests w))
           (''https://faceitanalyser.com/stats/'' @ nick @ ''/cs2'') = Response r \<and>
         400 \<le> status_code r \<and> status_code r < 600)
      \<longrightarrow> (\<exists>e. fst (register_user ev w tid nick) = Inl e) \<and>
          users (snd (register_user ev w tid nick)) = users w) \<and>
   (distinct (map row_telegram_id (users w)) \<and>
    register_user ev w tid nick1 = (Inr (Some stats1), w1) \<and>
    register_user ev w1 tid nick2 = (Inr (Some stats2), w2) \<longrightarrow>
      filter (\<lambda>r. row_telegram_id r = tid) (users w2) =
        [\<lparr>row_telegram_id = tid, row_faceit_nickname = nick2,
          row_registered_at = current_timestamp ev (connects w1)\<rparr>])"
proof -
  have a: "users (snd (register_user ev w tid nick)) = users w"
    if "\<forall>stats. fst (get_user_stat ev w nick) \<noteq> Inr (Some stats)"
    using register_user_unresolved [OF that, of tid] by (simp add: get_user_stat_world)
  have b: "fst (register_user ev w tid nick) = Inr None"
    if "fst (get_user_stat ev w nick) = Inr None"
  proof -
    from that have "\<forall>stats. fst (get_user_stat ev w nick) \<noteq> Inr (Some stats)" by simp
    from register_user_unresolved [OF this, of tid] that show ?thesis by simp
  qed
  have r: "fst (register_user ev w tid nick) = Inl e"
    if "fst (get_user_stat ev w nick) = Inl e" for e
  proof -
    from that have "\<forall>stats. fst (get_user_stat ev w nick) \<noteq> Inr (Some stats)" by simp
    from register_user_unresolved [OF this, of tid] that show ?thesis by simp
  qed
  have f: "(\<exists>e. fst (register_user ev w tid nick) = Inl e) \<and>
          users (snd (register_user ev w tid nick)) = users w"
    if "http_get ev (length (requests w)) (''https://faceitanalyser.com/stats/'' @ nick @ ''/cs2'')
          = ConnectionFailure \<or>
        http_get ev (length (requests w)) (''https://faceitanalyser.com/stats/'' @ nick @ ''/cs2'')
          = Timeout \<or>
        (\<exists>r. http_get ev (length (requests w))
               (''https://faceitanalyser.com/stats/'' @ nick @ ''/cs2'') = Response r \<and>
             400 \<le> status_code r \<and> status_code r < 600)"
  proof -
    from get_user_stat_fetch_failure [OF that]
    have g: "fst (get_user_stat ev w nick) = Inl TypeError" .
    then have u: "\<forall>stats. fst (get_user_stat ev w nick) \<noteq> Inr (Some stats)" by simp
    from r [OF g] have "\<exists>e. fst (register_user ev w tid nick) = Inl e" by (rule exI)
    then show ?thesis using a [OF u] by (rule conjI)
  qed
  have c: "filter (\<lambda>r. row_telegram_id r = tid) (users w2) =
        [\<lparr>row_telegram_id = tid, row_faceit_nickname = nick2,
          row_registered_at = current_timestamp ev (connects w1)\<rparr>]"
    if d: "distinct (map row_telegram_id (users w))"
      and r1: "register_user ev w tid nick1 = (Inr (Some stats1), w1)"
      and r2: "register_user ev w1 tid nick2 = (Inr (Some stats2), w2)"
  proof -
    from register_user_success [OF r1] upsert_body_result [OF _ d]
    have d1: "distinct (map row_telegram_id (users w1))" by blast
    from register_user_success [OF r2] upsert_body_result [OF _ d1]
    show ?thesis by blast
  qed
  have c': "distinct (map row_telegram_id (users w)) \<and>
      register_user ev w tid nick1 = (Inr (Some stats1), w1) \<and>
      register_user ev w1 tid nick2 = (Inr (Some stats2), w2) \<longrightarrow>
      filter (\<lambda>r. row_telegram_id r = tid) (users w2) =
        [\<lparr>row_telegram_id = tid, row_faceit_nickname = nick2,
          row_registered_at = current_timestamp ev (connects w1)\<rparr>]"
    using c by (intro impI) (elim conjE)
  have a': "(\<forall>stats. fst (get_user_stat ev w nick) \<noteq> Inr (Some stats)) \<longrightarrow>
      users (snd (register_user ev w tid nick)) = users w"
    by (rule impI) (rule a)
  have b': "fst (get_user_stat ev w nick) = Inr None \<longrightarrow>
      fst (register_user ev w tid nick) = Inr None"
    by (rule impI) (rule b)
  have r': "\<forall>e. fst (get_user_stat ev w nick) = Inl e \<longrightarrow>
      fst (register_user ev w tid nick) = Inl e"
    by (intro allI impI) (rule r)
  have f': "http_get ev (length (requests w)) (''https://faceitanalyser.com/stats/'' @ nick @ ''/cs2'')
          = ConnectionFailure \<or>
        http_get ev (length (requests w)) (''https://faceitanalyser.com/stats/'' @ nick @ ''/cs2'')
          = Timeout \<or>
        (\<exists>r. http_get ev (length (requests w))
               (''https://faceitanalyser.com/stats/'' @ nick @ ''/cs2'') = Response r \<and>
             400 \<le> status_code r \<and> status_code r < 600)
      \<longrightarrow> (\<exists>e. fst (register_user ev w tid nick) = Inl e) \<and>
          users (snd (register_user ev w tid nick)) = users w"
    by (rule impI) (rule f)
  from a' b' r' f' c' show ?thesis
    by (intro conjI)
qed

lemma env_online_store:
  "sql_fails env_online n op = False" "current_timestamp env_online n = 1700000000 + n"
  by (simp_all add: env_online_def)

lemma env_online_http:
  "http_get env_online n ''https://faceitanalyser.com/stats/ghost/cs2'' =
     Response \<lparr>status_code = 200, content_type = Some ''text/html'', content = [],
                response_text = html_no_elo\<rparr>"
  "url \<noteq> ''https://faceitanalyser.com/stats/ghost/cs2'' \<Longrightarrow>
     http_get env_online n url =
       Response \<lparr>status_code = 200, content_type = Some ''text/html'', content = [],
                  response_text = html_full\<rparr>"
  by (simp_all add: env_online_def)

lemma get_user_stat_ghost:
  "fst (get_user_stat env_online w ''ghost'') = Inr None"
  by (simp add: get_user_stat_def get_html_page_by_nickname_def download_page_def requests_get_def
      raise_for_status_def env_online_http parse_html_no_elo)

lemma register_ghost:
  "fst (get_user_stat env_online world0 ''ghost'') = Inr None"
  by (rule get_user_stat_ghost)

lemma get_user_stat_online:
  assumes "nick = ''s1mple'' \<or> nick = ''donk''"
  shows "get_user_stat env_online w nick =
      (Inr (parse_soup page_full),
       w\<lparr>requests := requests w @ [''https://faceitanalyser.com/stats/'' @ nick @ ''/cs2'']\<rparr>)"
  using assms
  by (auto simp add: get_user_stat_def get_html_page_by_nickname_def download_page_def
      requests_get_def raise_for_status_def env_online_http parse_html_full)

lemma get_user_stat_not_found:
  "fst (get_user_stat env_not_found w nick) = Inl TypeError"
  by (rule get_user_stat_fetch_failure) (simp add: env_not_found_def)

lemma upsert_body_online:
  "\<exists>rows'. upsert_body env_online conn rows tid nick = Inr rows'"
proof (cases "sql_select rows tid")
  case None
  then have "tid \<notin> set (map row_telegram_id rows)"
    by (simp add: sql_select_None)
  with None show ?thesis
    by (simp add: upsert_body_def sql_step_def sql_insert_def env_online_store)
next
  case (Some existing)
  then show ?thesis
    by (simp add: upsert_body_def sql_step_def env_online_store)
qed

lemma register_user_online:
  assumes "nick = ''s1mple'' \<or> nick = ''donk''"
  shows "fst (register_user env_online w tid nick) = Inr (parse_soup page_full)"
proof -
  let ?w1 = "w\<lparr>requests := requests w @ [''https://faceitanalyser.com/stats/'' @ nick @ ''/cs2'']\<rparr>"
  obtain rows' where u: "upsert_body env_online (connects ?w1) (users ?w1) tid nick = Inr rows'"
    using upsert_body_online by blast
  then have u': "upsert_body env_online (connects w) (users w) tid nick = Inr rows'"
    by simp
  show ?thesis
    unfolding register_user_def get_user_stat_online [OF assms]
    by (simp add: parse_page_full connect_def Let_def env_online_store u')
qed

theorem register_user_writes_only_resolved_witness:
  "users (snd (register_user env_online world0 42 ''ghost'')) = users world0 \<and>
   fst (register_user env_online world0 42 ''ghost'') = Inr None \<and>
   fst (register_user env_not_found world0 42 ''ghost'') = Inl TypeError \<and>
   (\<exists>e. fst (register_user env_offline world0 42 ''ghost'') = Inl e) \<and>
   users (snd (register_user env_offline world0 42 ''ghost'')) = users world0 \<and>
   filter (\<lambda>r. row_telegram_id r = 42)
     (users (snd (register_user env_online
                    (snd (register_user env_online world0 42 ''s1mple'')) 42 ''donk''))) =
     [\<lparr>row_telegram_id = 42, row_faceit_nickname = ''donk'', row_registered_at = 1700000001\<rparr>]"
proof -
  let ?w1 = "snd (register_user env_online world0 42 ''s1mple'')"
  let ?w2 = "snd (register_user env_online ?w1 42 ''donk'')"
  obtain stats where s: "parse_soup page_full = Some stats"
    using parse_page_full by blast
  have r1: "register_user env_online world0 42 ''s1mple'' = (Inr (Some stats), ?w1)"
    using register_user_online [of "''s1mple''" world0 42] s by (simp add: prod_eq_iff)
  have r2: "register_user env_online ?w1 42 ''donk'' = (Inr (Some stats), ?w2)"
    using register_user_online [of "''donk''" ?w1 42] s by (simp add: prod_eq_iff)
  have c1: "connects ?w1 = 1"
    using register_user_success [OF r1] by (simp add: world0_def)
  have d0: "distinct (map row_telegram_id (users world0))"
    by (simp add: world0_def)
  have ghost: "fst (get_user_stat env_online world0 ''ghost'') = Inr None"
    by (rule register_ghost)
  note inst = register_user_writes_only_resolved
    [where ev = env_online and w = world0 and nick = "''ghost''" and tid = 42
       and ?nick1.0 = "''s1mple''" and ?stats1.0 = stats and ?w1.0 = ?w1
       and ?nick2.0 = "''donk''" and ?stats2.0 = stats and ?w2.0 = ?w2]
  have unresolved: "\<forall>stats. fst (get_user_stat env_online world0 ''ghost'') \<noteq> Inr (Some stats)"
    by (simp add: ghost)
  have a: "users (snd (register_user env_online world0 42 ''ghost'')) = users world0"
    by (rule inst [THEN conjunct1, THEN mp]) (rule unresolved)
  have b: "fst (register_user env_online world0 42 ''ghost'') = Inr None"
    by (rule inst [THEN conjunct2, THEN conjunct1, THEN mp]) (rule ghost)
  have raised: "fst (register_user env_not_found world0 42 ''ghost'') = Inl TypeError"
    by (rule register_user_writes_only_resolved
          [where ev = env_not_found and w = world0 and nick = "''ghost''" and tid = 42,
           THEN conjunct2, THEN conjunct2, THEN conjunct1, THEN spec, THEN mp])
       (rule get_user_stat_not_found)
  have offline: "http_get env_offline (length (requests world0))
      (''https://faceitanalyser.com/stats/'' @ ''ghost'' @ ''/cs2'') = ConnectionFailure"
    unfolding env_offline_def by simp
  have failed: "(\<exists>e. fst (register_user env_offline world0 42 ''ghost'') = Inl e) \<and>
      users (snd (register_user env_offline world0 42 ''ghost'')) = users world0"
    by (rule register_user_writes_only_resolved
          [where ev = env_offline and w = world0 and nick = "''ghost''" and tid = 42,
           THEN conjunct2, THEN conjunct2, THEN conjunct2, THEN conjunct1, THEN mp])
       (rule disjI1, rule offline)
  have "filter (\<lambda>r. row_telegram_id r = 42) (users ?w2) =
     [\<lparr>row_telegram_id = 42, row_faceit_nickname = ''donk'',
       row_registered_at = current_timestamp env_online (connects ?w1)\<rparr>]"
    by (rule inst [THEN conjunct2, THEN conjunct2, THEN conjunct2, THEN conjunct2, THEN mp])
       (intro conjI d0 r1 r2)
  then have last: "filter (\<lambda>r. row_telegram_id r = 42) (users ?w2) =
     [\<lparr>row_telegram_id = 42, row_faceit_nickname = ''donk'', row_registered_at = 1700000001\<rparr>]"
    by (simp add: c1 env_online_store)
  from a b raised failed [THEN conjunct1] failed [THEN conjunct2] last show ?thesis
    by (intro conjI)
qed

lemma strip_examples:
  "strip '' ghost '' = ''ghost''" "strip ''s1mple'' = ''s1mple''"
  by code_simp+

text \<open>
  C5 as stated fails: the site answers the request for the page of \<open>ghost\<close> with the
  status 404, so the nickname does not resolve; \<open>register_user\<close> then raises instead of
  returning \<open>None\<close>, no row is written, and the handler, which ends with that exception,
  sends nothing after the prompt that \<open>/register\<close> had sent.
\<close>

theorem unresolved_nickname_raises_counterexample:
  "fst (register_user env_not_found world0 42 ''ghost'') = Inl TypeError \<and>
   users (snd (register_user env_not_found world0 42 ''ghost'')) = [] \<and>
   fst (handle_registration_input env_not_found (start_registration world0 ghost_message)
          ghost_message) = Inl TypeError \<and>
   outbox (snd (handle_registration_input env_not_found (start_registration world0 ghost_message)
                  ghost_message)) = [(42, SendMessage REGISTRATION_MSG)]"
proof -
  have g: "get_user_stat env_not_found w nick =
      (Inl TypeError,
       w\<lparr>requests := requests w @ [''https://faceitanalyser.com/stats/'' @ nick @ ''/cs2'']\<rparr>)"
    for w nick
    using get_user_stat_not_found [of w nick] get_user_stat_world [of env_not_found w nick]
    by (simp add: prod_eq_iff)
  have r: "register_user env_not_found w tid nick =
      (Inl TypeError,
       w\<lparr>requests := requests w @ [''https://faceitanalyser.com/stats/'' @ nick @ ''/cs2'']\<rparr>)"
    for w tid nick
    by (simp add: register_user_def g)
  have reg: "fst (register_user env_not_found world0 42 ''ghost'') = Inl TypeError"
    "users (snd (register_user env_not_found world0 42 ''ghost'')) = []"
    by (simp_all add: r world0_def)
  have "handle_registration_input env_not_found (start_registration world0 ghost_message)
      ghost_message =
        (Inl TypeError,
         (start_registration world0 ghost_message)
           \<lparr>requests := requests (start_registration world0 ghost_message) @
              [''https://faceitanalyser.com/stats/'' @ ''ghost'' @ ''/cs2'']\<rparr>)"
    by (simp add: handle_registration_input_def Let_def r ghost_message_def strip_examples)
  then have handler:
    "fst (handle_registration_input env_not_found (start_registration world0 ghost_message)
          ghost_message) = Inl TypeError"
    "outbox (snd (handle_registration_input env_not_found (start_registration world0 ghost_message)
                  ghost_message)) = [(42, SendMessage REGISTRATION_MSG)]"
    by (simp_all add: start_registration_def send_message_def world0_def ghost_message_def)
  from reg handler show ?thesis
    by (intro conjI)
qed

subsection \<open>The lookup\<close>

lemma filter_single_select:
  "filter (\<lambda>r. row_telegram_id r = tid) rows = [row] \<Longrightarrow>
     \<exists>r. sql_select rows tid = Some r \<and> row_faceit_nickname r = row_faceit_nickname row"
  by (induction rows) (auto simp add: sql_select_def split: if_splits)


lemma lookup_body_error:
  "lookup_body ev conn rows tid = Inl e \<Longrightarrow> e = SqliteError"
  by (auto simp add: lookup_body_def sql_step_def split: sum.splits option.splits if_splits)

lemma lookup_nickname_found:
  assumes "\<not> sql_fails ev (connects w) Connect" "\<not> sql_fails ev (connects w) Cursor"
    "\<not> sql_fails ev (connects w) Select" "\<not> sql_fails ev (connects w) Fetchone"
    and "sql_select (users w) tid = Some row"
  shows "fst (get_faceit_nickname_from_db ev w tid) = Inr (Some (row_faceit_nickname row))"
  using assms
  by (simp add: get_faceit_nickname_from_db_def connect_def Let_def lookup_body_def sql_step_def
      except_sqlite_def)

text \<open>
  C6. \<open>get_faceit_nickname_from_db\<close> never raises; for a user id that has no row it
  returns \<open>None\<close>; when \<open>connect\<close>, \<open>cursor\<close>, \<open>execute\<close> or \<open>fetchone\<close> raises
  \<open>sqlite3.Error\<close> it returns \<open>None\<close> as well; and on every path there are as many
  open connections after the call as before it, and the same rows.
\<close>

theorem lookup_nickname_soft_fails:
  "(\<exists>v. fst (get_faceit_nickname_from_db ev w tid) = Inr v) \<and>
   (tid \<notin> set (map row_telegram_id (users w)) \<longrightarrow>
      fst (get_faceit_nickname_from_db ev w tid) = Inr None) \<and>
   (sql_fails ev (connects w) Connect \<or> sql_fails ev (connects w) Cursor \<or>
    sql_fails ev (connects w) Select \<or> sql_fails ev (connects w) Fetchone \<longrightarrow>
      fst (get_faceit_nickname_from_db ev w tid) = Inr None) \<and>
   open_conns (snd (get_faceit_nickname_from_db ev w tid)) = open_conns w \<and>
   users (snd (get_faceit_nickname_from_db ev w tid)) = users w"
proof -
  have never_raises: "\<exists>v. fst (get_faceit_nickname_from_db ev w tid) = Inr v"
    by (auto simp add: get_faceit_nickname_from_db_def connect_def Let_def except_sqlite_def
        dest: lookup_body_error split: sum.splits)
  have unknown: "fst (get_faceit_nickname_from_db ev w tid) = Inr None"
    if "tid \<notin> set (map row_telegram_id (users w))"
  proof -
    from that have "sql_select (users w) tid = None"
      by (simp add: sql_select_None)
    then show ?thesis
      by (auto simp add: get_faceit_nickname_from_db_def connect_def Let_def except_sqlite_def
          lookup_body_def sql_step_def)
  qed
  have storage: "fst (get_faceit_nickname_from_db ev w tid) = Inr None"
    if "sql_fails ev (connects w) Connect \<or> sql_fails ev (connects w) Cursor \<or>
        sql_fails ev (connects w) Select \<or> sql_fails ev (connects w) Fetchone"
    using that
    by (auto simp add: get_faceit_nickname_from_db_def connect_def Let_def except_sqlite_def
        lookup_body_def sql_step_def)
  have released: "open_conns (snd (get_faceit_nickname_from_db ev w tid)) = open_conns w"
    "users (snd (get_faceit_nickname_from_db ev w tid)) = users w"
    by (simp_all add: get_faceit_nickname_from_db_def connect_def Let_def close_def)
  from never_raises unknown storage released show ?thesis by blast
qed

theorem lookup_nickname_soft_fails_witness:
  "fst (get_faceit_nickname_from_db env_online world0 42) = Inr None \<and>
   fst (get_faceit_nickname_from_db env_offline
          (snd (register_user env_online world0 42 ''s1mple'')) 42) = Inr None \<and>
   fst (get_faceit_nickname_from_db env_online
          (snd (register_user env_online world0 42 ''s1mple'')) 42) = Inr (Some ''s1mple'')"
proof -
  let ?w1 = "snd (register_user env_online world0 42 ''s1mple'')"
  have "42 \<notin> set (map row_telegram_id (users world0))"
    by (simp add: world0_def)
  with lookup_nickname_soft_fails [of env_online world0 42]
  have a: "fst (get_faceit_nickname_from_db env_online world0 42) = Inr None"
    by blast
  have "sql_fails env_offline (connects ?w1) Connect"
    unfolding env_offline_def by simp
  with lookup_nickname_soft_fails [of env_offline ?w1 42]
  have b: "fst (get_faceit_nickname_from_db env_offline ?w1 42) = Inr None"
    by blast
  obtain stats where s: "parse_soup page_full = Some stats"
    using parse_page_full by blast
  have r1: "register_user env_online world0 42 ''s1mple'' = (Inr (Some stats), ?w1)"
    using register_user_online [of "''s1mple''" world0 42] s by (simp add: prod_eq_iff)
  have d0: "distinct (map row_telegram_id (users world0))"
    by (simp add: world0_def)
  from register_user_success [OF r1] upsert_body_result [OF _ d0]
  have one: "filter (\<lambda>r. row_telegram_id r = 42) (users ?w1) =
      [\<lparr>row_telegram_id = 42, row_faceit_nickname = ''s1mple'',
        row_registered_at = current_timestamp env_online (connects world0)\<rparr>]"
    by blast
  from filter_single_select [OF one]
  have "\<exists>row. sql_select (users ?w1) 42 = Some row \<and> row_faceit_nickname row = ''s1mple''"
    by simp
  then have c: "fst (get_faceit_nickname_from_db env_online ?w1 42) = Inr (Some ''s1mple'')"
    using lookup_nickname_found [of env_online ?w1 42] by (auto simp add: env_online_store)
  from a b c show ?thesis by blast
qed

subsection \<open>The registration dialogue\<close>

lemma load_image_safe_eq:
  "load_image_safe ev w url sz =
     (fst (load_image_safe ev w url sz), w\<lparr>requests := requests w @ [url]\<rparr>)"
  by (simp add: prod_eq_iff load_image_safe_world)

lemma paste_avatar_world:
  "\<exists>rs. snd (paste_avatar ev w data) = w\<lparr>requests := rs\<rparr>"
proof (cases "avatar_url data")
  case None
  then have "snd (paste_avatar ev w data) = w"
    by (simp add: paste_avatar_def subscript_def)
  then show ?thesis
    by (intro exI [of _ "requests w"]) simp
next
  case (Some url)
  obtain r where l: "load_image_safe ev w url (150, 150) = (r, w\<lparr>requests := requests w @ [url]\<rparr>)"
    using load_image_safe_eq by blast
  show ?thesis
    by (cases r) (auto simp add: paste_avatar_def subscript_def Some l)
qed

lemma paste_flag_world:
  "\<exists>rs. snd (paste_flag ev w data) = w\<lparr>requests := rs\<rparr>"
proof (cases "flag_url data")
  case None
  then have "snd (paste_flag ev w data) = w"
    by (simp add: paste_flag_def subscript_def)
  then show ?thesis
    by (intro exI [of _ "requests w"]) simp
next
  case (Some url)
  obtain r where l: "load_image_safe ev w url (60, 45) = (r, w\<lparr>requests := requests w @ [url]\<rparr>)"
    using load_image_safe_eq by blast
  show ?thesis
    by (cases r) (auto simp add: paste_flag_def subscript_def Some l)
qed

lemma paste_level_world:
  "\<exists>rs. snd (paste_level ev w data) = w\<lparr>requests := rs\<rparr>"
proof (cases "level_url data")
  case None
  then have "snd (paste_level ev w data) = w"
    by (simp add: paste_level_def subscript_def)
  then show ?thesis
    by (intro exI [of _ "requests w"]) simp
next
  case (Some url)
  obtain r where l: "load_image_safe ev w url (70, 70) = (r, w\<lparr>requests := requests w @ [url]\<rparr>)"
    using load_image_safe_eq by blast
  show ?thesis
    by (cases r) (auto simp add: paste_level_def subscript_def Some l)
qed

lemma card_body_world:
  "\<exists>rs. snd (card_body ev w data) = w\<lparr>requests := rs\<rparr>"
proof -
  obtain r1 w1 where p1: "paste_avatar ev w data = (r1, w1)"
    by (cases "paste_avatar ev w data")
  obtain r2 w2 where p2: "paste_flag ev w1 data = (r2, w2)"
    by (cases "paste_flag ev w1 data")
  obtain r3 w3 where p3: "paste_level ev w2 data = (r3, w3)"
    by (cases "paste_level ev w2 data")
  from paste_avatar_world [of ev w data] p1 obtain rs1 where w1: "w1 = w\<lparr>requests := rs1\<rparr>"
    by auto
  from paste_flag_world [of ev w1 data] p2 w1 obtain rs2 where w2: "w2 = w\<lparr>requests := rs2\<rparr>"
    by auto
  from paste_level_world [of ev w2 data] p3 w2 obtain rs3 where w3: "w3 = w\<lparr>requests := rs3\<rparr>"
    by auto
  have "snd (card_body ev w data) \<in> {w, w1, w2, w3}"
    by (simp add: card_body_def p1 p2 p3 split: sum.splits)
  then consider "snd (card_body ev w data) = w" | "snd (card_body ev w data) = w\<lparr>requests := rs1\<rparr>"
    | "snd (card_body ev w data) = w\<lparr>requests := rs2\<rparr>"
    | "snd (card_body ev w data) = w\<lparr>requests := rs3\<rparr>"
    using w1 w2 w3 by auto
  then show ?thesis
  proof cases
    case 1
    then show ?thesis by (intro exI [of _ "requests w"]) simp
  qed blast+
qed

lemma generate_player_card_frame:
  "user_registration_data (snd (generate_player_card ev w data)) = user_registration_data w"
proof -
  from card_body_world [of ev w data] obtain rs where "snd (card_body ev w data) = w\<lparr>requests := rs\<rparr>"
    by blast
  then show ?thesis
    by (cases "card_body ev w data") (auto simp add: generate_player_card_def split: sum.splits)
qed

lemma handle_registration_input_map:
  "user_registration_data (snd (handle_registration_input ev w m)) =
     (case fst (register_user ev w (from_user_id m) (strip (message_text m))) of
        Inr (Some user_data) \<Rightarrow>
          (user_registration_data w)(from_user_id m \<mapsto> \<lparr>waiting_for_login = False\<rparr>)
      | _ \<Rightarrow> user_registration_data w)"
proof -
  obtain r w1 where reg: "register_user ev w (from_user_id m) (strip (message_text m)) = (r, w1)"
    by (cases "register_user ev w (from_user_id m) (strip (message_text m))")
  with register_user_frame [of ev w "from_user_id m" "strip (message_text m)"]
  have f: "user_registration_data w1 = user_registration_data w"
    by simp
  show ?thesis
  proof (cases r)
    case (Inl e)
    with reg f show ?thesis
      by (simp add: handle_registration_input_def Let_def)
  next
    case (Inr v)
    show ?thesis
    proof (cases v)
      case None
      with Inr reg f show ?thesis
        by (simp add: handle_registration_input_def Let_def send_message_def)
    next
      case (Some user_data)
      let ?w2 = "w1\<lparr>user_registration_data :=
                   (user_registration_data w1)(from_user_id m \<mapsto> \<lparr>waiting_for_login = False\<rparr>)\<rparr>"
      obtain c w3 where card: "generate_player_card ev ?w2 user_data = (c, w3)"
        by (cases "generate_player_card ev ?w2 user_data")
      with generate_player_card_frame [of ev ?w2 user_data]
      have "user_registration_data w3 =
              (user_registration_data w)(from_user_id m \<mapsto> \<lparr>waiting_for_login = False\<rparr>)"
        by (simp add: f)
      with Some Inr reg card show ?thesis
        by (cases c) (simp_all add: handle_registration_input_def Let_def send_high_quality_photo_def)
    qed
  qed
qed

lemma handle_registration_input_not_found:
  assumes "fst (register_user ev w (from_user_id m) (strip (message_text m))) = Inr None"
  shows "fst (handle_registration_input ev w m) = Inr (Some False) \<and>
         outbox (snd (handle_registration_input ev w m)) =
           outbox w @ [(chat_id m, SendMessage NICKNAME_NOT_FOUND)]"
proof -
  obtain r w1 where reg: "register_user ev w (from_user_id m) (strip (message_text m)) = (r, w1)"
    by (cases "register_user ev w (from_user_id m) (strip (message_text m))")
  with register_user_frame [of ev w "from_user_id m" "strip (message_text m)"]
  have f: "outbox w1 = outbox w"
    by simp
  from assms reg have "r = Inr None" by simp
  with reg f show ?thesis
    by (simp add: handle_registration_input_def Let_def send_message_def)
qed

text \<open>
  C10. When the submitted nickname does not lead to a registration, the handler leaves
  \<open>user_registration_data\<close> as it is: after a not-found answer the entry of the user
  still has \<open>waiting_for_login\<close> true, so the filter of the handler accepts the next
  private message of that user. After a registration the entry is
  \<open>{'waiting_for_login': False}\<close>, also when the card then fails; no key ever leaves
  the dictionary, and \<open>/register\<close> sets the entry to true.
\<close>

theorem registration_entry_lifecycle:
  "((\<forall>stats. fst (register_user ev w (from_user_id m) (strip (message_text m))) \<noteq> Inr (Some stats)) \<longrightarrow>
      user_registration_data (snd (handle_registration_input ev w m)) = user_registration_data w) \<and>
   (awaits_nickname w m \<and>
    fst (register_user ev w (from_user_id m) (strip (message_text m))) = Inr None \<and>
    from_user_id m' = from_user_id m \<and> chat_type m' = ''private'' \<longrightarrow>
      fst (handle_registration_input ev w m) = Inr (Some False) \<and>
      awaits_nickname (snd (handle_registration_input ev w m)) m') \<and>
   (fst (register_user ev w (from_user_id m) (strip (message_text m))) = Inr (Some stats) \<longrightarrow>
      user_registration_data (snd (handle_registration_input ev w m)) (from_user_id m) =
        Some \<lparr>waiting_for_login = False\<rparr>) \<and>
   dom (user_registration_data w) \<subseteq>
     dom (user_registration_data (snd (handle_registration_input ev w m))) \<and>
   user_registration_data (start_registration w m) (from_user_id m) =
     Some \<lparr>waiting_for_login = True\<rparr>"
proof -
  let ?r = "fst (register_user ev w (from_user_id m) (strip (message_text m)))"
  let ?w' = "snd (handle_registration_input ev w m)"
  note map = handle_registration_input_map [of ev w m]
  have a: "user_registration_data ?w' = user_registration_data w"
    if "\<forall>stats. ?r \<noteq> Inr (Some stats)"
    using that map by (auto split: sum.splits option.splits)
  have b: "fst (handle_registration_input ev w m) = Inr (Some False) \<and> awaits_nickname ?w' m'"
    if "awaits_nickname w m" "?r = Inr None" "from_user_id m' = from_user_id m"
      "chat_type m' = ''private''"
  proof -
    from that(2) have "user_registration_data ?w' = user_registration_data w"
      using a by simp
    with that(1,3,4) have "awaits_nickname ?w' m'"
      by (simp add: awaits_nickname_def)
    with handle_registration_input_not_found [OF that(2)] show ?thesis
      by simp
  qed
  have c: "user_registration_data ?w' (from_user_id m) = Some \<lparr>waiting_for_login = False\<rparr>"
    if "?r = Inr (Some stats)"
    using that map by simp
  have d: "dom (user_registration_data w) \<subseteq> dom (user_registration_data ?w')"
    using map by (auto split: sum.splits option.splits)
  have e: "user_registration_data (start_registration w m) (from_user_id m) =
     Some \<lparr>waiting_for_login = True\<rparr>"
    by (simp add: start_registration_def send_message_def)
  from a b c d e show ?thesis
    by blast
qed

theorem registration_entry_lifecycle_witness:
  "awaits_nickname (start_registration world0 ghost_message) ghost_message \<and>
   fst (handle_registration_input env_online (start_registration world0 ghost_message) ghost_message)
     = Inr (Some False) \<and>
   awaits_nickname
     (snd (handle_registration_input env_online (start_registration world0 ghost_message)
            ghost_message)) s1mple_message \<and>
   user_registration_data
     (snd (handle_registration_input env_online (start_registration world0 ghost_message)
            s1mple_message)) 42 = Some \<lparr>waiting_for_login = False\<rparr>"
proof -
  let ?w = "start_registration world0 ghost_message"
  have waits: "awaits_nickname ?w ghost_message"
    by (simp add: awaits_nickname_def start_registration_def send_message_def ghost_message_def)
  have ghost: "fst (register_user env_online ?w (from_user_id ghost_message)
                 (strip (message_text ghost_message))) = Inr None"
  proof -
    have g: "fst (get_user_stat env_online ?w ''ghost'') = Inr None"
      by (rule get_user_stat_ghost)
    then have "\<forall>stats. fst (get_user_stat env_online ?w ''ghost'') \<noteq> Inr (Some stats)"
      by simp
    from register_user_unresolved [OF this] g show ?thesis
      by (simp add: ghost_message_def strip_examples)
  qed
  obtain stats where s: "parse_soup page_full = Some stats"
    using parse_page_full by blast
  have s1mple: "fst (register_user env_online ?w (from_user_id s1mple_message)
                  (strip (message_text s1mple_message))) = Inr (Some stats)"
    using register_user_online [of "''s1mple''" ?w 42] s
    by (simp add: s1mple_message_def strip_examples)
  have same: "from_user_id s1mple_message = from_user_id ghost_message \<and>
              chat_type s1mple_message = ''private''"
    by (simp add: s1mple_message_def ghost_message_def)
  have b: "fst (handle_registration_input env_online ?w ghost_message) = Inr (Some False) \<and>
      awaits_nickname (snd (handle_registration_input env_online ?w ghost_message)) s1mple_message"
    by (rule registration_entry_lifecycle
          [where m = ghost_message and m' = s1mple_message and ev = env_online and w = ?w,
           THEN conjunct2, THEN conjunct1, THEN mp])
       (intro conjI waits ghost same [THEN conjunct1] same [THEN conjunct2])
  have "user_registration_data (snd (handle_registration_input env_online ?w s1mple_message))
          (from_user_id s1mple_message) = Some \<lparr>waiting_for_login = False\<rparr>"
    by (rule registration_entry_lifecycle
          [where m = s1mple_message and ev = env_online and w = ?w and stats = stats,
           THEN conjunct2, THEN conjunct2, THEN conjunct1, THEN mp])
       (rule s1mple)
  then have c: "user_registration_data (snd (handle_registration_input env_online ?w s1mple_message))
          42 = Some \<lparr>waiting_for_login = False\<rparr>"
    by (simp add: s1mple_message_def)
  from waits b c show ?thesis
    by (intro conjI) simp_all
qed

end
